theory Spec2Isabelle
  imports Complex_Main
begin

section \<open>JavaScript values and strings\<close>

text \<open>
  The development embeds \<^verbatim>\<open>src/api/controllers/images.ts\<close>: the aspect and resolution
  resolver, the ability-graph builder, the submission, the polling loop and the
  downgrade-and-retry wrapper.

  A JavaScript string is represented by its UTF-8 encoding, a \<^typ>\<open>string\<close>.  The
  controller only concatenates strings, compares them with \<^verbatim>\<open>===\<close>, searches
  substrings and runs one regular expression over them; on well-formed text all of
  these agree with their counterparts on the encoding, because no encoding of a
  character occurs inside the encoding of another one.  The Chinese literals of the
  source are written out as byte lists.
\<close>

datatype jsval = Undefined | Null | Num int | Str string

text \<open>\<^verbatim>\<open>s.startsWith(t)\<close> and \<^verbatim>\<open>s.includes(t)\<close>.\<close>

fun startsWith :: "string \<Rightarrow> string \<Rightarrow> bool" where
  "startsWith s [] = True"
| "startsWith [] (d # t) = False"
| "startsWith (c # s) (d # t) = (c = d \<and> startsWith s t)"

fun str_includes :: "string \<Rightarrow> string \<Rightarrow> bool" where
  "str_includes [] t = (t = [])"
| "str_includes (c # s) t = (startsWith (c # s) t \<or> str_includes s t)"

text \<open>Truthiness of an optional string: \<^verbatim>\<open>undefined\<close> and \<^verbatim>\<open>""\<close> are falsy.\<close>

fun truthy :: "string option \<Rightarrow> bool" where
  "truthy None = False"
| "truthy (Some s) = (s \<noteq> [])"

section \<open>Constant tables\<close>

definition DEFAULT_ASSISTANT_ID :: int where
  "DEFAULT_ASSISTANT_ID = 513695"

definition DEFAULT_MODEL :: string where
  "DEFAULT_MODEL = ''jimeng-image-4.5''"

definition DRAFT_VERSION :: string where
  "DRAFT_VERSION = ''3.3.8''"

definition MIN_VERSION :: string where
  "MIN_VERSION = ''3.0.2''"

definition MODEL_MAP :: "(string \<times> string) list" where
  "MODEL_MAP =
    [(''jimeng-image-4.5'', ''high_aes_general_v40l''),
     (''jimeng-image-4.1'', ''high_aes_general_v41''),
     (''jimeng-image-4.0'', ''high_aes_general_v40''),
     (''jimeng-image-3.1'', ''high_aes_general_v30l_art_fangzhou:general_v3.0_18b''),
     (''jimeng-image-3.0'', ''high_aes_general_v30l:general_v3.0_18b''),
     (''jimeng-image-2.0-pro'', ''high_aes_general_v20_L:general_v2.0_L'')]"

definition ASPECT_RATIOS :: "string list" where
  "ASPECT_RATIOS =
    [''21:9'', ''16:9'', ''3:2'', ''4:3'', ''1:1'', ''3:4'', ''2:3'', ''9:16'']"

definition RATIO_VALUES :: "(string \<times> int) list" where
  "RATIO_VALUES =
    [(''21:9'', 0), (''16:9'', 1), (''3:2'', 2), (''4:3'', 3),
     (''1:1'', 8), (''3:4'', 4), (''2:3'', 5), (''9:16'', 6)]"

record dimensions =
  width :: int
  height :: int

definition DIMENSIONS_1K :: "(string \<times> dimensions) list" where
  "DIMENSIONS_1K =
    [(''21:9'', \<lparr>width = 2016, height = 846\<rparr>),
     (''16:9'', \<lparr>width = 1664, height = 936\<rparr>),
     (''3:2'', \<lparr>width = 1584, height = 1056\<rparr>),
     (''4:3'', \<lparr>width = 1472, height = 1104\<rparr>),
     (''1:1'', \<lparr>width = 1328, height = 1328\<rparr>),
     (''3:4'', \<lparr>width = 1104, height = 1472\<rparr>),
     (''2:3'', \<lparr>width = 1056, height = 1584\<rparr>),
     (''9:16'', \<lparr>width = 936, height = 1664\<rparr>)]"

definition DIMENSIONS_2K :: "(string \<times> dimensions) list" where
  "DIMENSIONS_2K =
    [(''21:9'', \<lparr>width = 3024, height = 1296\<rparr>),
     (''16:9'', \<lparr>width = 2560, height = 1440\<rparr>),
     (''3:2'', \<lparr>width = 2496, height = 1664\<rparr>),
     (''4:3'', \<lparr>width = 2304, height = 1728\<rparr>),
     (''1:1'', \<lparr>width = 2048, height = 2048\<rparr>),
     (''3:4'', \<lparr>width = 1728, height = 2304\<rparr>),
     (''2:3'', \<lparr>width = 1664, height = 2496\<rparr>),
     (''9:16'', \<lparr>width = 1440, height = 2560\<rparr>)]"

text \<open>
  \<^verbatim>\<open>getModel\<close>: \<^verbatim>\<open>MODEL_MAP[model] || MODEL_MAP[DEFAULT_MODEL]\<close>.  The lookup finds the
  six mapped names and, for a name the object literal does not have, the member of
  that name which it inherits from \<^verbatim>\<open>Object.prototype\<close>: a function or an object,
  truthy in each case, kept here by its name.
\<close>

datatype model_value = Mapped string | Inherited string

definition prototype_members :: "string list" where
  "prototype_members =
    [''constructor'', ''__defineGetter__'', ''__defineSetter__'', ''hasOwnProperty'',
     ''__lookupGetter__'', ''__lookupSetter__'', ''isPrototypeOf'',
     ''propertyIsEnumerable'', ''toString'', ''valueOf'', ''__proto__'',
     ''toLocaleString'']"

definition getModel :: "string \<Rightarrow> model_value" where
  "getModel model =
    (case map_of MODEL_MAP model of
       Some m \<Rightarrow> if m \<noteq> [] then Mapped m else Mapped (the (map_of MODEL_MAP DEFAULT_MODEL))
     | None \<Rightarrow>
         if model \<in> set prototype_members then Inherited model
         else Mapped (the (map_of MODEL_MAP DEFAULT_MODEL)))"

section \<open>Detecting an aspect ratio in the prompt\<close>

text \<open>
  The regular expression \<^verbatim>\<open>/(\d+)\s*[:<fullwidth colon>]\s*(\d+)/g\<close>.  \<^verbatim>\<open>\d\<close> is an
  ASCII digit; \<^verbatim>\<open>\s\<close> is one of the ECMAScript white space and line terminator
  characters, of one, two or three bytes; the colon is \<^verbatim>\<open>U+003A\<close> or \<^verbatim>\<open>U+FF1A\<close>.
\<close>

definition is_digit :: "char \<Rightarrow> bool" where
  "is_digit c = (c \<in> set ''0123456789'')"

definition ws1 :: "char \<Rightarrow> bool" where
  "ws1 a = (a \<in> set [CHR 0x09, CHR 0x0A, CHR 0x0B, CHR 0x0C, CHR 0x0D, CHR 0x20])"

definition ws2 :: "char \<Rightarrow> char \<Rightarrow> bool" where
  "ws2 a b = (a = CHR 0xC2 \<and> b = CHR 0xA0)"

definition ws3 :: "char \<Rightarrow> char \<Rightarrow> char \<Rightarrow> bool" where
  "ws3 a b c =
    ((a = CHR 0xE1 \<and> b = CHR 0x9A \<and> c = CHR 0x80) \<or>
     (a = CHR 0xE2 \<and> b = CHR 0x80 \<and>
        c \<in> set [CHR 0x80, CHR 0x81, CHR 0x82, CHR 0x83, CHR 0x84, CHR 0x85, CHR 0x86,
                  CHR 0x87, CHR 0x88, CHR 0x89, CHR 0x8A, CHR 0xA8, CHR 0xA9, CHR 0xAF]) \<or>
     (a = CHR 0xE2 \<and> b = CHR 0x81 \<and> c = CHR 0x9F) \<or>
     (a = CHR 0xE3 \<and> b = CHR 0x80 \<and> c = CHR 0x80) \<or>
     (a = CHR 0xEF \<and> b = CHR 0xBB \<and> c = CHR 0xBF))"

text \<open>\<^verbatim>\<open>\s*\<close>: drop the white space at the head of the text.\<close>

fun skip_ws :: "string \<Rightarrow> string" where
  "skip_ws (a # b # c # s) =
    (if ws1 a then skip_ws (b # c # s)
     else if ws2 a b then skip_ws (c # s)
     else if ws3 a b c then skip_ws s
     else a # b # c # s)"
| "skip_ws [a, b] = (if ws1 a then skip_ws [b] else if ws2 a b then [] else [a, b])"
| "skip_ws [a] = (if ws1 a then [] else [a])"
| "skip_ws [] = []"

text \<open>The colon class: the rest of the text behind one colon, if there is one.\<close>

fun strip_colon :: "string \<Rightarrow> string option" where
  "strip_colon [] = None"
| "strip_colon (a # s) =
    (if a = CHR 0x3A then Some s
     else (case s of
             b # c # s' \<Rightarrow>
               if a = CHR 0xEF \<and> b = CHR 0xBC \<and> c = CHR 0x9A then Some s' else None
           | _ \<Rightarrow> None))"

text \<open>
  One match attempt at the head of the text: the two groups and the text behind the
  match.  The three character classes are disjoint, so the greedy match is the only
  one a backtracking matcher can find at this position.
\<close>

definition match_here :: "string \<Rightarrow> (string \<times> string \<times> string) option" where
  "match_here s =
    (let d1 = takeWhile is_digit s in
     if d1 = [] then None
     else (case strip_colon (skip_ws (dropWhile is_digit s)) of
             None \<Rightarrow> None
           | Some r \<Rightarrow>
               (let r' = skip_ws r; d2 = takeWhile is_digit r' in
                if d2 = [] then None else Some (d1, d2, dropWhile is_digit r'))))"

text \<open>
  \<^verbatim>\<open>[...prompt.matchAll(ratioRegex)]\<close>: the matches from left to right, the search
  resuming behind each match, one position further where there is none.
\<close>

function matchAll :: "string \<Rightarrow> (string \<times> string) list" where
  "matchAll [] = []"
| "matchAll (c # s) =
    (case match_here (c # s) of
       Some (a, b, r) \<Rightarrow> (a, b) # matchAll r
     | None \<Rightarrow> matchAll s)"
  by pat_completeness auto
termination
proof -
  have ws: "length (skip_ws s) \<le> length s" for s
    by (induction s rule: skip_ws.induct) auto
  have colon: "length r < length s" if "strip_colon s = Some r" for s r
    using that by (cases s) (auto split: if_splits list.splits)
  have shorter: "length r < length s" if m: "match_here s = Some (a, b, r)" for s a b r
  proof -
    from m obtain r0 where
      c: "strip_colon (skip_ws (dropWhile is_digit s)) = Some r0"
      and r: "r = dropWhile is_digit (skip_ws r0)"
      by (auto simp: match_here_def Let_def split: if_splits option.splits)
    have "length r \<le> length (skip_ws r0)"
      unfolding r by (rule length_dropWhile_le)
    also have "\<dots> \<le> length r0"
      by (rule ws)
    also have "\<dots> < length (skip_ws (dropWhile is_digit s))"
      using c by (rule colon)
    also have "\<dots> \<le> length (dropWhile is_digit s)"
      by (rule ws)
    also have "\<dots> \<le> length s"
      by (rule length_dropWhile_le)
    finally show ?thesis .
  qed
  show ?thesis
    by (relation "measure length") (auto dest: shorter)
qed

definition kw_landscape :: "string list" where
  "kw_landscape =
    [[CHR 0xE6, CHR 0xA8, CHR 0xAA, CHR 0xE5, CHR 0xB1, CHR 0x8F],
     [CHR 0xE6, CHR 0xA8, CHR 0xAA, CHR 0xE7, CHR 0x89, CHR 0x88],
     [CHR 0xE5, CHR 0xAE, CHR 0xBD, CHR 0xE5, CHR 0xB1, CHR 0x8F]]"

definition kw_portrait :: "string list" where
  "kw_portrait =
    [[CHR 0xE7, CHR 0xAB, CHR 0x96, CHR 0xE5, CHR 0xB1, CHR 0x8F],
     [CHR 0xE7, CHR 0xAB, CHR 0x96, CHR 0xE7, CHR 0x89, CHR 0x88],
     [CHR 0xE6, CHR 0x89, CHR 0x8B, CHR 0xE6, CHR 0x9C, CHR 0xBA]]"

definition kw_square :: "string list" where
  "kw_square =
    [[CHR 0xE6, CHR 0x96, CHR 0xB9, CHR 0xE5, CHR 0xBD, CHR 0xA2],
     [CHR 0xE6, CHR 0xAD, CHR 0xA3, CHR 0xE6, CHR 0x96, CHR 0xB9]]"

definition detectAspectRatioKey :: "string \<Rightarrow> string option" where
  "detectAspectRatioKey prompt =
    (case find (\<lambda>key. key \<in> set ASPECT_RATIOS)
            (map (\<lambda>(a, b). a @ '':'' @ b) (matchAll prompt)) of
       Some key \<Rightarrow> Some key
     | None \<Rightarrow>
         if list_ex (str_includes prompt) kw_landscape then Some ''16:9''
         else if list_ex (str_includes prompt) kw_portrait then Some ''9:16''
         else if list_ex (str_includes prompt) kw_square then Some ''1:1''
         else None)"

section \<open>Resolution tier, ratio and dimensions (lines 157 to 206)\<close>

record options =
  opt_ratio :: "string option"
  opt_resolution :: "string option"
  opt_sampleStrength :: "real option"
  opt_negativePrompt :: "string option"
  opt_filePath :: "string option"

text \<open>A destructuring default: it replaces an absent (\<^verbatim>\<open>undefined\<close>) property only.\<close>

fun default_to :: "'a \<Rightarrow> 'a option \<Rightarrow> 'a" where
  "default_to d None = d"
| "default_to d (Some v) = v"

definition is4xModel :: "string \<Rightarrow> bool" where
  "is4xModel modelName =
    (str_includes modelName ''image-4.'' \<or> modelName = ''jimeng-image-4.5'' \<or>
     modelName = ''jimeng-image-4.1'' \<or> modelName = ''jimeng-image-4.0'')"

definition is2xModel :: "string \<Rightarrow> bool" where
  "is2xModel modelName = (modelName = ''jimeng-image-2.0-pro'')"

text \<open>The value of \<^verbatim>\<open>resolutionType\<close> from the destructured \<^verbatim>\<open>resolution\<close>.\<close>

definition resolutionType :: "string \<Rightarrow> string \<Rightarrow> string" where
  "resolutionType modelName resolution =
    (if is2xModel modelName then ''1k''
     else if resolution \<notin> set [''1k'', ''2k'']
       then (if is4xModel modelName then ''2k'' else ''1k'')
     else resolution)"

definition dimensionMap :: "string \<Rightarrow> (string \<times> dimensions) list" where
  "dimensionMap resType = (if resType = ''2k'' then DIMENSIONS_2K else DIMENSIONS_1K)"

text \<open>The value of \<^verbatim>\<open>validRatio\<close> from the destructured \<^verbatim>\<open>ratio\<close> and the prompt.\<close>

definition validRatio :: "string \<Rightarrow> string \<Rightarrow> string" where
  "validRatio ratio prompt =
    (let v = (if ratio \<in> fst ` set RATIO_VALUES then ratio else ''1:1'') in
     if truthy (detectAspectRatioKey prompt) \<and> v = ''1:1''
     then the (detectAspectRatioKey prompt) else v)"


record geometry =
  g_resolutionType :: string
  g_validRatio :: string
  g_imageRatio :: "int option"
  g_finalWidth :: int
  g_finalHeight :: int

section \<open>Errors\<close>

text \<open>
  The entries of the table \<^verbatim>\<open>EX\<close> the controller names, and the values it throws and
  catches: an \<^verbatim>\<open>APIException\<close> built from an entry and an optional message, a
  \<^verbatim>\<open>TypeError\<close> of the runtime, or any other value, given by its \<^verbatim>\<open>code\<close> and
  \<^verbatim>\<open>message\<close> properties.  A message is a string, or absent.
\<close>

datatype ex =
  API_REQUEST_FAILED
| API_CONTENT_FILTERED
| API_IMAGE_GENERATION_FAILED
| API_IMAGE_GENERATION_INSUFFICIENT_POINTS

datatype js_error =
  APIException ex "string option"
| TypeError
| Error jsval "string option"

text \<open>
  \<^verbatim>\<open>lib/exceptions/APIException.ts\<close> and \<^verbatim>\<open>api/consts/exceptions.ts\<close> are not among the
  sources.  What the controller reads from them is a parameter of the model: the
  first component of an entry of \<^verbatim>\<open>EX\<close>, the \<^verbatim>\<open>code\<close> and the \<^verbatim>\<open>message\<close> of an
  \<^verbatim>\<open>APIException\<close>.  What the runtime prints is a parameter too: the message of a
  \<^verbatim>\<open>TypeError\<close>, and the string that a member of \<^verbatim>\<open>Object.prototype\<close> becomes in a
  template literal.
\<close>

record host =
  entry_code :: "ex \<Rightarrow> jsval"
  exception_code :: "ex \<Rightarrow> string option \<Rightarrow> jsval"
  exception_message :: "ex \<Rightarrow> string option \<Rightarrow> string option"
  type_error_message :: string
  inherited_text :: "string \<Rightarrow> string"

fun error_code :: "host \<Rightarrow> js_error \<Rightarrow> jsval" where
  "error_code H (APIException e m) = exception_code H e m"
| "error_code H TypeError = Undefined"
| "error_code H (Error c m) = c"

fun error_message :: "host \<Rightarrow> js_error \<Rightarrow> string option" where
  "error_message H (APIException e m) = exception_message H e m"
| "error_message H TypeError = Some (type_error_message H)"
| "error_message H (Error c m) = m"

text \<open>An optional string inside a template literal.\<close>

fun template :: "string option \<Rightarrow> string" where
  "template None = ''undefined''"
| "template (Some s) = s"

definition msg_upload_failed :: string where
  "msg_upload_failed =
    [CHR 0xE5, CHR 0x8F, CHR 0x82, CHR 0xE8, CHR 0x80, CHR 0x83, CHR 0xE5, CHR 0x9B,
     CHR 0xBE, CHR 0xE4, CHR 0xB8, CHR 0x8A, CHR 0xE4, CHR 0xBC, CHR 0xA0, CHR 0xE5,
     CHR 0xA4, CHR 0xB1, CHR 0xE8, CHR 0xB4, CHR 0xA5, CHR 0x3A, CHR 0x20]"

definition msg_no_record_id :: string where
  "msg_no_record_id =
    [CHR 0xE8, CHR 0xAE, CHR 0xB0, CHR 0xE5, CHR 0xBD, CHR 0x95, CHR 0x49, CHR 0x44,
     CHR 0xE4, CHR 0xB8, CHR 0x8D, CHR 0xE5, CHR 0xAD, CHR 0x98, CHR 0xE5, CHR 0x9C,
     CHR 0xA8]"

definition msg_no_record :: string where
  "msg_no_record =
    [CHR 0xE8, CHR 0xAE, CHR 0xB0, CHR 0xE5, CHR 0xBD, CHR 0x95, CHR 0xE4, CHR 0xB8,
     CHR 0x8D, CHR 0xE5, CHR 0xAD, CHR 0x98, CHR 0xE5, CHR 0x9C, CHR 0xA8]"

definition msg_timeout :: string where
  "msg_timeout =
    [CHR 0xE5, CHR 0x9B, CHR 0xBE, CHR 0xE5, CHR 0x83, CHR 0x8F, CHR 0xE7, CHR 0x94,
     CHR 0x9F, CHR 0xE6, CHR 0x88, CHR 0x90, CHR 0xE8, CHR 0xB6, CHR 0x85, CHR 0xE6,
     CHR 0x97, CHR 0xB6]"

definition msg_failed :: string where
  "msg_failed =
    [CHR 0xE5, CHR 0x9B, CHR 0xBE, CHR 0xE5, CHR 0x83, CHR 0x8F, CHR 0xE7, CHR 0x94,
     CHR 0x9F, CHR 0xE6, CHR 0x88, CHR 0x90, CHR 0xE5, CHR 0xA4, CHR 0xB1, CHR 0xE8,
     CHR 0xB4, CHR 0xA5]"

definition kw_insufficient :: string where
  "kw_insufficient =
    [CHR 0xE7, CHR 0xA7, CHR 0xAF, CHR 0xE5, CHR 0x88, CHR 0x86, CHR 0xE4, CHR 0xB8,
     CHR 0x8D, CHR 0xE8, CHR 0xB6, CHR 0xB3]"

definition msg_remediation :: string where
  "msg_remediation =
    [CHR 0xE7, CHR 0xA7, CHR 0xAF, CHR 0xE5, CHR 0x88, CHR 0x86, CHR 0xE4, CHR 0xB8,
     CHR 0x8D, CHR 0xE8, CHR 0xB6, CHR 0xB3, CHR 0xEF, CHR 0xBC, CHR 0x8C, CHR 0xE5,
     CHR 0xB7, CHR 0xB2, CHR 0xE8, CHR 0x87, CHR 0xAA, CHR 0xE5, CHR 0x8A, CHR 0xA8,
     CHR 0xE9, CHR 0x99, CHR 0x8D, CHR 0xE8, CHR 0x87, CHR 0xB3, CHR 0xE6, CHR 0x9C,
     CHR 0x80, CHR 0xE4, CHR 0xBD, CHR 0x8E, CHR 0xE7, CHR 0x94, CHR 0xBB, CHR 0xE8,
     CHR 0xB4, CHR 0xA8, CHR 0xE4, CHR 0xBB, CHR 0x8D, CHR 0xE7, CHR 0x84, CHR 0xB6,
     CHR 0xE4, CHR 0xB8, CHR 0x8D, CHR 0xE8, CHR 0xB6, CHR 0xB3, CHR 0xEF, CHR 0xBC,
     CHR 0x8C, CHR 0xE8, CHR 0xAF, CHR 0xB7, CHR 0xE5, CHR 0x89, CHR 0x8D, CHR 0xE5,
     CHR 0xBE, CHR 0x80, CHR 0xE5, CHR 0x8D, CHR 0xB3, CHR 0xE6, CHR 0xA2, CHR 0xA6,
     CHR 0xE5, CHR 0xAE, CHR 0x98, CHR 0xE7, CHR 0xBD, CHR 0x91]
    @ '' https://jimeng.jianying.com '' @
    [CHR 0xE5, CHR 0x85, CHR 0x85, CHR 0xE5, CHR 0x80, CHR 0xBC, CHR 0xE7, CHR 0xA7,
     CHR 0xAF, CHR 0xE5, CHR 0x88, CHR 0x86]"


section \<open>The request\<close>

text \<open>
  The geometry of lines 157 to 206.  A ratio missing from the dimension table would
  make \<^verbatim>\<open>dimensions.width\<close> raise a \<^verbatim>\<open>TypeError\<close>.
\<close>

definition resolveGeometry :: "string \<Rightarrow> string \<Rightarrow> options \<Rightarrow> js_error + geometry" where
  "resolveGeometry modelName prompt opts =
    (let resType = resolutionType modelName (default_to ''2k'' (opt_resolution opts));
         vr = validRatio (default_to ''1:1'' (opt_ratio opts)) prompt
     in case map_of (dimensionMap resType) vr of
          None \<Rightarrow> Inl TypeError
        | Some d \<Rightarrow>
            Inr \<lparr>g_resolutionType = resType, g_validRatio = vr,
                 g_imageRatio = map_of RATIO_VALUES vr,
                 g_finalWidth = width d, g_finalHeight = height d\<rparr>)"

text \<open>
  The ability graph and the request body.  The records keep the fields that carry
  data of the request; the \<^verbatim>\<open>id\<close> fields (fresh values of \<^verbatim>\<open>util.uuid()\<close>), the empty
  \<^verbatim>\<open>type\<close> fields, the creation time and the constant reporting fields are left out.
  An absent property is \<^const>\<open>None\<close>.
\<close>

record large_image_info =
  lii_height :: int
  lii_width :: int
  lii_resolution_type :: string

record core_param =
  cp_model :: model_value
  cp_prompt :: string
  cp_negative_prompt :: "string option"
  cp_seed :: "int option"
  cp_sample_strength :: real
  cp_image_ratio :: "int option"
  cp_large_image_info :: large_image_info

record image_item =
  img_type :: string
  img_source_from :: string
  img_platform_type :: int
  img_image_uri :: string
  img_width :: int
  img_height :: int
  img_uri :: string

record ability =
  ab_name :: string
  ab_image_uri_list :: "string list"
  ab_image_list :: "image_item list"
  ab_strength :: real

text \<open>
  \<^verbatim>\<open>blend\<close>: core parameters, ability list, the ability indices of the prompt
  placeholders and the \<^verbatim>\<open>generate_type\<close> of the post-edit parameters;
  \<^verbatim>\<open>generate\<close>: core parameters.
\<close>

datatype abilities =
  Blend core_param "ability list" "int list" int
| Generate core_param

fun core_param_of :: "abilities \<Rightarrow> core_param" where
  "core_param_of (Blend cp al pl g) = cp"
| "core_param_of (Generate cp) = cp"

record scene_option =
  so_modelReqKey :: model_value
  so_resolutionType :: string
  so_benefitCount :: int
  so_extraVipFunctionKey :: string

record requestData =
  rd_root_model :: model_value
  rd_metrics_extra :: "scene_option option"
  rd_generate_type :: string
  rd_abilities :: abilities

definition largeImageInfo :: "geometry \<Rightarrow> large_image_info" where
  "largeImageInfo g =
    \<lparr>lii_height = g_finalHeight g, lii_width = g_finalWidth g,
     lii_resolution_type = g_resolutionType g\<rparr>"

text \<open>Lines 224 to 320; \<^verbatim>\<open>seed\<close> is the seed drawn for the generate shape.\<close>

definition buildAbilities ::
  "model_value \<Rightarrow> string \<Rightarrow> options \<Rightarrow> geometry \<Rightarrow> bool \<Rightarrow> string option \<Rightarrow> int \<Rightarrow> abilities" where
  "buildAbilities model prompt opts g hasFilePath uploadID seed =
    (if hasFilePath \<and> truthy uploadID then
       Blend
         \<lparr>cp_model = model, cp_prompt = prompt @ ''##'',
          cp_negative_prompt = None, cp_seed = None,
          cp_sample_strength = default_to 0.5 (opt_sampleStrength opts),
          cp_image_ratio = g_imageRatio g,
          cp_large_image_info = largeImageInfo g\<rparr>
         [\<lparr>ab_name = ''byte_edit'',
           ab_image_uri_list = [template uploadID],
           ab_image_list =
             [\<lparr>img_type = ''image'', img_source_from = ''upload'', img_platform_type = 1,
               img_image_uri = template uploadID, img_width = 0, img_height = 0,
               img_uri = template uploadID\<rparr>],
           ab_strength = 0.5\<rparr>]
         [0] 0
     else
       Generate
         \<lparr>cp_model = model, cp_prompt = prompt,
          cp_negative_prompt = Some (default_to [] (opt_negativePrompt opts)),
          cp_seed = Some seed,
          cp_sample_strength = default_to 0.5 (opt_sampleStrength opts),
          cp_image_ratio = g_imageRatio g,
          cp_large_image_info = largeImageInfo g\<rparr>)"

text \<open>A model value inside a template literal.\<close>

fun model_text :: "host \<Rightarrow> model_value \<Rightarrow> string" where
  "model_text H (Mapped m) = m"
| "model_text H (Inherited k) = inherited_text H k"

text \<open>Lines 325 to 387.\<close>

definition buildRequestData ::
  "host \<Rightarrow> string \<Rightarrow> model_value \<Rightarrow> string \<Rightarrow> options \<Rightarrow> geometry \<Rightarrow> bool \<Rightarrow> string option
    \<Rightarrow> int \<Rightarrow> requestData" where
  "buildRequestData H modelName model prompt opts g hasFilePath uploadID seed =
    \<lparr>rd_root_model = model,
     rd_metrics_extra =
       (if hasFilePath then None
        else Some \<lparr>so_modelReqKey = model, so_resolutionType = g_resolutionType g,
                   so_benefitCount =
                     (if is4xModel modelName \<and> g_resolutionType g = ''2k'' then 4 else 1),
                   so_extraVipFunctionKey =
                     model_text H model @ ''-'' @ g_resolutionType g\<rparr>),
     rd_generate_type = (if hasFilePath then ''blend'' else ''generate''),
     rd_abilities = buildAbilities model prompt opts g hasFilePath uploadID seed\<rparr>"

section \<open>The collaborators and the trace of a run\<close>

text \<open>
  \<^verbatim>\<open>uploadFile\<close>, \<^verbatim>\<open>getCredit\<close>, \<^verbatim>\<open>receiveCredit\<close> and \<^verbatim>\<open>request\<close> live in
  \<^verbatim>\<open>core.ts\<close>, outside the controller.  The environment fixes the outcome of each of
  their calls, numbered from 0 in the order the calls are issued: an error thrown, or
  \<^item> for \<^verbatim>\<open>uploadFile\<close> the \<^verbatim>\<open>image_uri\<close> of the result,
  \<^item> for \<^verbatim>\<open>getCredit\<close> the \<^verbatim>\<open>totalCredit\<close>,
  \<^item> for the request to \<^verbatim>\<open>/mweb/v1/aigc_draft/generate\<close> the
    \<^verbatim>\<open>history_record_id\<close> of its \<^verbatim>\<open>aigc_data\<close>,
  \<^item> for the request to \<^verbatim>\<open>/mweb/v1/get_history_by_ids\<close> the entry of the response
    under the history id, \<^const>\<open>None\<close> when there is no such entry (the test of
    line 536 takes a falsy entry for a missing one),
  and, for each seed drawn, the integer \<^verbatim>\<open>Math.floor(Math.random() * 100000000)\<close>.
\<close>

record item =
  large_image_url :: "string option"
  cover_url :: "string option"

record history_record =
  h_status :: int
  h_fail_code :: jsval
  h_item_list :: "item list option"

record env =
  uploadFile_r :: "nat \<Rightarrow> js_error + string option"
  getCredit_r :: "nat \<Rightarrow> js_error + int"
  receiveCredit_r :: "nat \<Rightarrow> js_error + unit"
  generate_r :: "nat \<Rightarrow> js_error + string option"
  history_r :: "nat \<Rightarrow> js_error + history_record option"
  scaled_random_r :: "nat \<Rightarrow> int"

text \<open>
  The trace counts the calls issued so far, keeps the bodies submitted to the
  generate endpoint, and the resolutions the wrapper has logged on entering the
  inner pipeline.
\<close>

record trace =
  uploads :: nat
  credit_reads :: nat
  credit_receives :: nat
  randoms :: nat
  submitted :: "requestData list"
  polls :: nat
  attempts :: "string list"

section \<open>generateImages\<close>

text \<open>Lines 129 to 151: the upload of the reference image.\<close>

definition uploadReference ::
  "host \<Rightarrow> env \<Rightarrow> string \<Rightarrow> trace \<Rightarrow> (js_error + string option) \<times> trace" where
  "uploadReference H E filePath t =
    (if filePath \<noteq> [] then
       (case uploadFile_r E (uploads t) of
          Inl error \<Rightarrow>
            (Inl (APIException API_REQUEST_FAILED
                    (Some (msg_upload_failed @ template (error_message H error)))),
             t\<lparr>uploads := uploads t + 1\<rparr>)
        | Inr image_uri \<Rightarrow> (Inr image_uri, t\<lparr>uploads := uploads t + 1\<rparr>))
     else (Inr None, t))"

text \<open>Lines 216 and 217.\<close>

definition ensureCredit :: "env \<Rightarrow> trace \<Rightarrow> (js_error + unit) \<times> trace" where
  "ensureCredit E t =
    (let t1 = t\<lparr>credit_reads := credit_reads t + 1\<rparr> in
     case getCredit_r E (credit_reads t) of
       Inl error \<Rightarrow> (Inl error, t1)
     | Inr totalCredit \<Rightarrow>
         if totalCredit \<le> 0 then
           (case receiveCredit_r E (credit_receives t1) of
              Inl error \<Rightarrow> (Inl error, t1\<lparr>credit_receives := credit_receives t1 + 1\<rparr>)
            | Inr u \<Rightarrow> (Inr (), t1\<lparr>credit_receives := credit_receives t1 + 1\<rparr>))
         else (Inr (), t1))"

text \<open>
  Line 303: \<^verbatim>\<open>Math.floor(Math.random() * 100000000) + 2500000000\<close>.  The first summand
  is the integer the environment gives; the sum of two integers of this size is exact.
\<close>

definition drawSeed :: "env \<Rightarrow> trace \<Rightarrow> int" where
  "drawSeed E t = scaled_random_r E (randoms t) + 2500000000"

text \<open>Lines 392 to 407: the submission and the history id.\<close>

definition submitDraft :: "env \<Rightarrow> requestData \<Rightarrow> trace \<Rightarrow> (js_error + string) \<times> trace" where
  "submitDraft E rd t =
    (let t1 = t\<lparr>submitted := submitted t @ [rd]\<rparr> in
     case generate_r E (length (submitted t)) of
       Inl error \<Rightarrow> (Inl error, t1)
     | Inr historyId \<Rightarrow>
         if \<not> truthy historyId
         then (Inl (APIException API_IMAGE_GENERATION_FAILED (Some msg_no_record_id)), t1)
         else (Inr (template historyId), t1))"

text \<open>Lines 129 to 407: everything up to the history id.\<close>

definition submission ::
  "host \<Rightarrow> env \<Rightarrow> string \<Rightarrow> string \<Rightarrow> options \<Rightarrow> trace \<Rightarrow> (js_error + string) \<times> trace" where
  "submission H E modelName prompt opts t =
    (let filePath = default_to [] (opt_filePath opts);
         hasFilePath = (filePath \<noteq> [])
     in case uploadReference H E filePath t of
          (Inl error, t1) \<Rightarrow> (Inl error, t1)
        | (Inr uploadID, t1) \<Rightarrow>
            (case resolveGeometry modelName prompt opts of
               Inl error \<Rightarrow> (Inl error, t1)
             | Inr g \<Rightarrow>
                 (case ensureCredit E t1 of
                    (Inl error, t2) \<Rightarrow> (Inl error, t2)
                  | (Inr u, t2) \<Rightarrow>
                      (let blend = (hasFilePath \<and> truthy uploadID);
                           t3 = (if blend then t2 else t2\<lparr>randoms := randoms t2 + 1\<rparr>)
                       in submitDraft E
                            (buildRequestData H modelName (getModel modelName) prompt opts g
                               hasFilePath uploadID (drawSeed E t2))
                            t3))))"

text \<open>Lines 416 to 545: the polling loop over the local variables.\<close>

definition PROCESSING_STATES :: "int list" where
  "PROCESSING_STATES = [20, 42, 45]"

definition FAIL_STATE :: int where
  "FAIL_STATE = 30"

definition MAX_POLL_RETRIES :: nat where
  "MAX_POLL_RETRIES = 120"

definition empty_items :: "item list option \<Rightarrow> bool" where
  "empty_items item_list = (case item_list of None \<Rightarrow> True | Some l \<Rightarrow> length l = 0)"

function pollLoop ::
  "env \<Rightarrow> int \<Rightarrow> jsval \<Rightarrow> item list option \<Rightarrow> nat \<Rightarrow> trace
    \<Rightarrow> (js_error + int \<times> jsval \<times> item list option \<times> nat) \<times> trace" where
  "pollLoop E status failCode item_list retryCount t =
    (if status \<in> set PROCESSING_STATES \<and> empty_items item_list
        \<and> retryCount < MAX_POLL_RETRIES
     then
       (case history_r E (polls t) of
          Inl error \<Rightarrow> (Inl error, t\<lparr>polls := polls t + 1\<rparr>)
        | Inr None \<Rightarrow>
            (Inl (APIException API_IMAGE_GENERATION_FAILED (Some msg_no_record)),
             t\<lparr>polls := polls t + 1\<rparr>)
        | Inr (Some r) \<Rightarrow>
            pollLoop E (h_status r) (h_fail_code r) (h_item_list r) (retryCount + 1)
              (t\<lparr>polls := polls t + 1\<rparr>))
     else (Inr (status, failCode, item_list, retryCount), t))"
  by pat_completeness auto
termination
  by (relation "measure (\<lambda>(E, status, failCode, item_list, retryCount, t).
        MAX_POLL_RETRIES - retryCount)") auto

text \<open>Lines 555 to 559: the URL of a result item.\<close>

definition item_url :: "item \<Rightarrow> string option" where
  "item_url i =
    (if \<not> truthy (large_image_url i)
     then (if truthy (cover_url i) then cover_url i else None)
     else large_image_url i)"

text \<open>Lines 551 to 559: the result for the state the loop has left.\<close>

definition conclude :: "int \<Rightarrow> jsval \<Rightarrow> item list option \<Rightarrow> js_error + string option list" where
  "conclude status failCode item_list =
    (if status = FAIL_STATE then
       (if failCode = Str ''2038'' then Inl (APIException API_CONTENT_FILTERED None)
        else Inl (APIException API_IMAGE_GENERATION_FAILED None))
     else (case item_list of
             None \<Rightarrow> Inl TypeError
           | Some l \<Rightarrow> Inr (map item_url l)))"

text \<open>Lines 416 to 559: the loop, the check of the retry count, and the result.\<close>

definition polling :: "env \<Rightarrow> trace \<Rightarrow> (js_error + string option list) \<times> trace" where
  "polling E t =
    (case pollLoop E 20 Undefined (Some []) 0 t of
       (Inl error, t') \<Rightarrow> (Inl error, t')
     | (Inr (status, failCode, item_list, retryCount), t') \<Rightarrow>
         if retryCount \<ge> MAX_POLL_RETRIES
         then (Inl (APIException API_IMAGE_GENERATION_FAILED (Some msg_timeout)), t')
         else (conclude status failCode item_list, t'))"

definition generateImages ::
  "host \<Rightarrow> env \<Rightarrow> string \<Rightarrow> string \<Rightarrow> options \<Rightarrow> trace
    \<Rightarrow> (js_error + string option list) \<times> trace" where
  "generateImages H E modelName prompt opts t =
    (case submission H E modelName prompt opts t of
       (Inl error, t') \<Rightarrow> (Inl error, t')
     | (Inr historyId, t') \<Rightarrow> polling E t')"

section \<open>generateImagesWithRetry\<close>

definition resolutionLevels :: "string list" where
  "resolutionLevels = [''2k'', ''1k'']"

text \<open>\<^verbatim>\<open>xs.indexOf(x)\<close>.\<close>

fun indexOf :: "'a list \<Rightarrow> 'a \<Rightarrow> int" where
  "indexOf [] x = - 1"
| "indexOf (y # ys) x =
    (if y = x then 0 else (let i = indexOf ys x in if i < 0 then - 1 else i + 1))"

text \<open>Lines 593 to 599.\<close>

definition isInsufficientCredits :: "host \<Rightarrow> js_error \<Rightarrow> bool" where
  "isInsufficientCredits H error =
    (error_code H error = entry_code H API_IMAGE_GENERATION_INSUFFICIENT_POINTS \<or>
     (truthy (error_message H error) \<and>
      (str_includes (template (error_message H error)) kw_insufficient \<or>
       str_includes (template (error_message H error)) ''2039'' \<or>
       str_includes (template (error_message H error)) ''1006'')))"


text \<open>Lines 584 to 625: the loop over the resolution levels.\<close>

function retryLoop ::
  "host \<Rightarrow> env \<Rightarrow> string \<Rightarrow> string \<Rightarrow> options \<Rightarrow> nat \<Rightarrow> trace
    \<Rightarrow> (js_error + string option list) \<times> trace" where
  "retryLoop H E modelName prompt opts currentResIndex t =
    (if currentResIndex < length resolutionLevels then
       (case generateImages H E modelName prompt
               (opts\<lparr>opt_resolution := Some (resolutionLevels ! currentResIndex)\<rparr>)
               (t\<lparr>attempts := attempts t @ [resolutionLevels ! currentResIndex]\<rparr>) of
          (Inr urls, t') \<Rightarrow> (Inr urls, t')
        | (Inl error, t') \<Rightarrow>
            if isInsufficientCredits H error
               \<and> currentResIndex < length resolutionLevels - 1
            then retryLoop H E modelName prompt opts (currentResIndex + 1) t'
            else if isInsufficientCredits H error
            then (Inl (APIException API_IMAGE_GENERATION_INSUFFICIENT_POINTS
                         (Some msg_remediation)), t')
            else (Inl error, t'))
     else (Inl (APIException API_IMAGE_GENERATION_FAILED (Some msg_failed)), t))"
  by pat_completeness auto
termination
  by (relation "measure (\<lambda>(H, E, modelName, prompt, opts, currentResIndex, t).
        length resolutionLevels - currentResIndex)") auto

definition generateImagesWithRetry ::
  "host \<Rightarrow> env \<Rightarrow> string \<Rightarrow> string \<Rightarrow> options \<Rightarrow> trace
    \<Rightarrow> (js_error + string option list) \<times> trace" where
  "generateImagesWithRetry H E modelName prompt opts t =
    retryLoop H E modelName prompt opts
      (nat (max 0 (indexOf resolutionLevels
         (if truthy (opt_resolution opts) then template (opt_resolution opts) else ''2k''))))
      t"


section \<open>Replies to the history query, and sample runs\<close>

text \<open>
  The loop condition of line 426 and 427 on the state read from a record, and a reply
  of the history query that carries such a record.
\<close>

definition still_processing :: "history_record \<Rightarrow> bool" where
  "still_processing r =
    (h_status r \<in> set PROCESSING_STATES \<and> empty_items (h_item_list r))"

definition processing_reply :: "js_error + history_record option \<Rightarrow> bool" where
  "processing_reply x =
    (case x of Inr (Some r) \<Rightarrow> still_processing r | Inr None \<Rightarrow> False | Inl e \<Rightarrow> False)"

text \<open>
  Sample values for concrete runs: a host whose exceptions expose their message and
  no code, an environment whose upload and credit calls succeed and whose replies to
  the generate and the history requests are given, the options with no property,
  and the trace before any call.
\<close>

definition sample_host :: host where
  "sample_host =
    \<lparr>entry_code =
       (\<lambda>e. case e of
          API_REQUEST_FAILED \<Rightarrow> Num (- 2001)
        | API_CONTENT_FILTERED \<Rightarrow> Num (- 2006)
        | API_IMAGE_GENERATION_FAILED \<Rightarrow> Num (- 2007)
        | API_IMAGE_GENERATION_INSUFFICIENT_POINTS \<Rightarrow> Num (- 2009)),
     exception_code = (\<lambda>e m. Undefined),
     exception_message = (\<lambda>e m. m),
     type_error_message = ''Cannot read properties of undefined'',
     inherited_text = (\<lambda>k. ''function '' @ k @ ''() { [native code] }'')\<rparr>"

definition sample_env ::
  "(nat \<Rightarrow> js_error + string option) \<Rightarrow> (nat \<Rightarrow> js_error + history_record option) \<Rightarrow> env" where
  "sample_env g h =
    \<lparr>uploadFile_r = (\<lambda>n. Inr (Some ''tos-cn-i/ref'')),
     getCredit_r = (\<lambda>n. Inr 10),
     receiveCredit_r = (\<lambda>n. Inr ()),
     generate_r = g,
     history_r = h,
     scaled_random_r = (\<lambda>n. 0)\<rparr>"

definition no_options :: options where
  "no_options =
    \<lparr>opt_ratio = None, opt_resolution = None, opt_sampleStrength = None,
     opt_negativePrompt = None, opt_filePath = None\<rparr>"

definition empty_trace :: trace where
  "empty_trace =
    \<lparr>uploads = 0, credit_reads = 0, credit_receives = 0, randoms = 0, submitted = [],
     polls = 0, attempts = []\<rparr>"

definition queued :: history_record where
  "queued = \<lparr>h_status = 20, h_fail_code = Undefined, h_item_list = Some []\<rparr>"

definition finished :: history_record where
  "finished =
    \<lparr>h_status = 50, h_fail_code = Undefined,
     h_item_list = Some [\<lparr>large_image_url = Some ''https://x/img1.png'', cover_url = None\<rparr>]\<rparr>"

definition filtered :: history_record where
  "filtered = \<lparr>h_status = 30, h_fail_code = Str ''2038'', h_item_list = Some []\<rparr>"



section \<open>Properties of the resolver\<close>

declare pollLoop.simps [simp del]
declare retryLoop.simps [simp del]

lemma find_holds: "find P xs = Some x \<Longrightarrow> P x"
  by (induction xs) (auto split: if_splits)

lemma detect_supported: "detectAspectRatioKey p = Some k \<Longrightarrow> k \<in> set ASPECT_RATIOS"
proof -
  assume a: "detectAspectRatioKey p = Some k"
  have kw: "''16:9'' \<in> set ASPECT_RATIOS" "''9:16'' \<in> set ASPECT_RATIOS" "''1:1'' \<in> set ASPECT_RATIOS"
    by (simp_all add: ASPECT_RATIOS_def)
  show ?thesis
  proof (cases "find (\<lambda>key. key \<in> set ASPECT_RATIOS) (map (\<lambda>(a, b). a @ '':'' @ b) (matchAll p))")
    case None
    with a kw show ?thesis
      by (simp add: detectAspectRatioKey_def split: if_splits)
  next
    case (Some key)
    with a have "key = k" by (simp add: detectAspectRatioKey_def)
    with Some show ?thesis by (auto dest: find_holds)
  qed
qed

lemma ratio_keys: "fst ` set RATIO_VALUES = set ASPECT_RATIOS"
  by (simp add: RATIO_VALUES_def ASPECT_RATIOS_def)

lemma supported_nonempty: "k \<in> set ASPECT_RATIOS \<Longrightarrow> k \<noteq> []"
  by (auto simp: ASPECT_RATIOS_def)

lemma truthy_detect: "truthy (detectAspectRatioKey p) = (detectAspectRatioKey p \<noteq> None)"
  by (cases "detectAspectRatioKey p") (auto dest: detect_supported supported_nonempty)

lemma validRatio_precedence:
  "validRatio ratio prompt =
    (if ratio \<in> set ASPECT_RATIOS \<and> ratio \<noteq> ''1:1'' then ratio
     else (case detectAspectRatioKey prompt of Some k \<Rightarrow> k | None \<Rightarrow> ''1:1''))"
proof (cases "detectAspectRatioKey prompt")
  case None
  then show ?thesis
    by (auto simp: validRatio_def Let_def ratio_keys)
next
  case (Some k)
  then have "k \<noteq> []"
    by (auto dest: detect_supported supported_nonempty)
  with Some show ?thesis
    by (auto simp: validRatio_def Let_def ratio_keys)
qed

lemma validRatio_supported: "validRatio ratio prompt \<in> set ASPECT_RATIOS"
proof -
  have "''1:1'' \<in> set ASPECT_RATIOS" by (simp add: ASPECT_RATIOS_def)
  then show ?thesis
    unfolding validRatio_precedence
    by (auto split: option.splits dest: detect_supported)
qed

lemma resolutionType_range:
  "resolutionType modelName resolution = ''1k'' \<or> resolutionType modelName resolution = ''2k''"
  by (auto simp: resolutionType_def)


lemma dimension_lookup:
  assumes "vr \<in> set ASPECT_RATIOS" and "rt = ''1k'' \<or> rt = ''2k''"
  shows "\<exists>d. map_of (dimensionMap rt) vr = Some d \<and>
    map_of
       [((''1k'', ''21:9''), (2016, 846)), ((''1k'', ''16:9''), (1664, 936)),
         ((''1k'', ''3:2''), (1584, 1056)), ((''1k'', ''4:3''), (1472, 1104)),
         ((''1k'', ''1:1''), (1328, 1328)), ((''1k'', ''3:4''), (1104, 1472)),
         ((''1k'', ''2:3''), (1056, 1584)), ((''1k'', ''9:16''), (936, 1664)),
         ((''2k'', ''21:9''), (3024, 1296)), ((''2k'', ''16:9''), (2560, 1440)),
         ((''2k'', ''3:2''), (2496, 1664)), ((''2k'', ''4:3''), (2304, 1728)),
         ((''2k'', ''1:1''), (2048, 2048)), ((''2k'', ''3:4''), (1728, 2304)),
         ((''2k'', ''2:3''), (1664, 2496)), ((''2k'', ''9:16''), (1440, 2560))]
       (rt, vr) = Some (width d, height d)"
  using assms
  by (auto simp: ASPECT_RATIOS_def dimensionMap_def DIMENSIONS_1K_def DIMENSIONS_2K_def)

lemma resolveGeometry_total:
  "\<exists>d. map_of (dimensionMap (resolutionType m (default_to ''2k'' (opt_resolution opts))))
          (validRatio (default_to ''1:1'' (opt_ratio opts)) p) = Some d \<and>
       resolveGeometry m p opts =
         Inr \<lparr>g_resolutionType = resolutionType m (default_to ''2k'' (opt_resolution opts)),
              g_validRatio = validRatio (default_to ''1:1'' (opt_ratio opts)) p,
              g_imageRatio = map_of RATIO_VALUES (validRatio (default_to ''1:1'' (opt_ratio opts)) p),
              g_finalWidth = width d, g_finalHeight = height d\<rparr>"
  using dimension_lookup [OF validRatio_supported resolutionType_range]
  by (fastforce simp: resolveGeometry_def Let_def)


lemma resolutionType_selection:
  "resolutionType modelName (default_to ''2k'' hint) =
    (if modelName = ''jimeng-image-2.0-pro'' then ''1k''
     else (case hint of
             None \<Rightarrow> ''2k''
           | Some h \<Rightarrow>
               if h = ''1k'' \<or> h = ''2k'' then h
               else if is4xModel modelName then ''2k'' else ''1k''))"
  by (cases hint) (auto simp: resolutionType_def is2xModel_def)

text \<open>
  Claim C4, at the input where the code departs from it.  With the model
  \<^verbatim>\<open>jimeng-image-3.0\<close> and no \<^verbatim>\<open>resolution\<close> among the options, the destructuring
  default \<^verbatim>\<open>"2k"\<close> is taken for a hint of the caller, and the tier is \<^verbatim>\<open>"2k"\<close>,
  whatever the prompt and the other options; the claim and the comment on line 174
  (an unspecified resolution follows the model) give \<^verbatim>\<open>"1k"\<close>.
\<close>

theorem C4_unspecified_hint_older_model:
  "\<exists>g. resolveGeometry ''jimeng-image-3.0'' prompt (opts\<lparr>opt_resolution := None\<rparr>) = Inr g
     \<and> g_resolutionType g = ''2k''"
proof -
  have "resolutionType ''jimeng-image-3.0''
          (default_to ''2k'' (opt_resolution (opts\<lparr>opt_resolution := None\<rparr>))) = ''2k''"
    by (simp add: resolutionType_def is2xModel_def)
  with resolveGeometry_total [of "''jimeng-image-3.0''" "opts\<lparr>opt_resolution := None\<rparr>" prompt]
  show ?thesis by auto
qed

text \<open>
  Claim C5.  The ratio of the geometry: a hint that is one of the eight aspect codes
  and is not \<^verbatim>\<open>"1:1"\<close> is taken as it is; any other hint, \<^verbatim>\<open>"1:1"\<close> among them, and
  no hint at all give way to the code detected in the prompt, and to \<^verbatim>\<open>"1:1"\<close> when
  the prompt has none.  Detection takes the first match of the pattern that is an
  aspect code.
\<close>

theorem C5_ratio_precedence:
  "(\<exists>g. resolveGeometry modelName prompt opts = Inr g \<and>
        g_validRatio g =
          (case opt_ratio opts of
             Some h \<Rightarrow>
               if h \<in> set ASPECT_RATIOS \<and> h \<noteq> ''1:1'' then h
               else (case detectAspectRatioKey prompt of Some k \<Rightarrow> k | None \<Rightarrow> ''1:1'')
           | None \<Rightarrow> (case detectAspectRatioKey prompt of Some k \<Rightarrow> k | None \<Rightarrow> ''1:1'')))
   \<and> detectAspectRatioKey ''a cat 16:9 wide'' = Some ''16:9''
   \<and> detectAspectRatioKey ''10:3 and 4 : 3 or 16:9'' = Some ''4:3''
   \<and> detectAspectRatioKey ''a cat'' = None"
proof (intro conjI)
  have "validRatio (default_to ''1:1'' (opt_ratio opts)) prompt =
          (case opt_ratio opts of
             Some h \<Rightarrow>
               if h \<in> set ASPECT_RATIOS \<and> h \<noteq> ''1:1'' then h
               else (case detectAspectRatioKey prompt of Some k \<Rightarrow> k | None \<Rightarrow> ''1:1'')
           | None \<Rightarrow> (case detectAspectRatioKey prompt of Some k \<Rightarrow> k | None \<Rightarrow> ''1:1''))"
    by (cases "opt_ratio opts") (simp_all add: validRatio_precedence)
  with resolveGeometry_total [of modelName opts prompt]
  show "\<exists>g. resolveGeometry modelName prompt opts = Inr g \<and>
        g_validRatio g =
          (case opt_ratio opts of
             Some h \<Rightarrow>
               if h \<in> set ASPECT_RATIOS \<and> h \<noteq> ''1:1'' then h
               else (case detectAspectRatioKey prompt of Some k \<Rightarrow> k | None \<Rightarrow> ''1:1'')
           | None \<Rightarrow> (case detectAspectRatioKey prompt of Some k \<Rightarrow> k | None \<Rightarrow> ''1:1''))"
    by auto
  show "detectAspectRatioKey ''a cat 16:9 wide'' = Some ''16:9''"
    by code_simp
  show "detectAspectRatioKey ''10:3 and 4 : 3 or 16:9'' = Some ''4:3''"
    by code_simp
  show "detectAspectRatioKey ''a cat'' = None"
    by code_simp
qed

text \<open>
  The four cases of the claim: hint \<^verbatim>\<open>"4:3"\<close> against a prompt with \<^verbatim>\<open>16:9\<close>, the
  same prompt without a hint, a prompt without a code, and the hint \<^verbatim>\<open>"1:1"\<close>.
\<close>

theorem C5_ratio_precedence_witness:
  "(\<exists>g. resolveGeometry ''jimeng-image-4.5'' ''a cat 16:9 wide''
          \<lparr>opt_ratio = Some ''4:3'', opt_resolution = None, opt_sampleStrength = None,
           opt_negativePrompt = None, opt_filePath = None\<rparr> = Inr g
        \<and> g_validRatio g = ''4:3'')
   \<and> (\<exists>g. resolveGeometry ''jimeng-image-4.5'' ''a cat 16:9 wide''
          \<lparr>opt_ratio = None, opt_resolution = None, opt_sampleStrength = None,
           opt_negativePrompt = None, opt_filePath = None\<rparr> = Inr g
        \<and> g_validRatio g = ''16:9'')
   \<and> (\<exists>g. resolveGeometry ''jimeng-image-4.5'' ''a cat''
          \<lparr>opt_ratio = None, opt_resolution = None, opt_sampleStrength = None,
           opt_negativePrompt = None, opt_filePath = None\<rparr> = Inr g
        \<and> g_validRatio g = ''1:1'')
   \<and> (\<exists>g. resolveGeometry ''jimeng-image-4.5'' ''a cat 16:9 wide''
          \<lparr>opt_ratio = Some ''1:1'', opt_resolution = None, opt_sampleStrength = None,
           opt_negativePrompt = None, opt_filePath = None\<rparr> = Inr g
        \<and> g_validRatio g = ''16:9'')"
proof -
  have s: "''4:3'' \<in> set ASPECT_RATIOS"
    by (simp add: ASPECT_RATIOS_def)
  note d = C5_ratio_precedence [THEN conjunct2]
  show ?thesis
    using
      C5_ratio_precedence [THEN conjunct1, of "''jimeng-image-4.5''" "''a cat 16:9 wide''"
        "\<lparr>opt_ratio = Some ''4:3'', opt_resolution = None, opt_sampleStrength = None,
          opt_negativePrompt = None, opt_filePath = None\<rparr>"]
      C5_ratio_precedence [THEN conjunct1, of "''jimeng-image-4.5''" "''a cat 16:9 wide''"
        "\<lparr>opt_ratio = None, opt_resolution = None, opt_sampleStrength = None,
          opt_negativePrompt = None, opt_filePath = None\<rparr>"]
      C5_ratio_precedence [THEN conjunct1, of "''jimeng-image-4.5''" "''a cat''"
        "\<lparr>opt_ratio = None, opt_resolution = None, opt_sampleStrength = None,
          opt_negativePrompt = None, opt_filePath = None\<rparr>"]
      C5_ratio_precedence [THEN conjunct1, of "''jimeng-image-4.5''" "''a cat 16:9 wide''"
        "\<lparr>opt_ratio = Some ''1:1'', opt_resolution = None, opt_sampleStrength = None,
          opt_negativePrompt = None, opt_filePath = None\<rparr>"]
    by (simp add: s d)
qed



text \<open>
  Claim C6.  For every input the geometry has a tier in \<^verbatim>\<open>{"1k", "2k"}\<close> and one of the
  eight aspect codes, and its width and height are the pair listed for that tier and
  code among the sixteen fixed pairs.  With an empty prompt and the default model,
  the eight codes as ratio hint give these eight pairs under the hint \<^verbatim>\<open>"1k"\<close> and
  those eight under \<^verbatim>\<open>"2k"\<close>.
\<close>

theorem C6_dimension_table:
  "(\<exists>g. resolveGeometry modelName prompt opts = Inr g
      \<and> (g_resolutionType g = ''1k'' \<or> g_resolutionType g = ''2k'')
      \<and> g_validRatio g \<in> set ASPECT_RATIOS
      \<and> map_of
        [((''1k'', ''21:9''), (2016, 846)), ((''1k'', ''16:9''), (1664, 936)),
         ((''1k'', ''3:2''), (1584, 1056)), ((''1k'', ''4:3''), (1472, 1104)),
         ((''1k'', ''1:1''), (1328, 1328)), ((''1k'', ''3:4''), (1104, 1472)),
         ((''1k'', ''2:3''), (1056, 1584)), ((''1k'', ''9:16''), (936, 1664)),
         ((''2k'', ''21:9''), (3024, 1296)), ((''2k'', ''16:9''), (2560, 1440)),
         ((''2k'', ''3:2''), (2496, 1664)), ((''2k'', ''4:3''), (2304, 1728)),
         ((''2k'', ''1:1''), (2048, 2048)), ((''2k'', ''3:4''), (1728, 2304)),
         ((''2k'', ''2:3''), (1664, 2496)), ((''2k'', ''9:16''), (1440, 2560))]
        (g_resolutionType g, g_validRatio g) = Some (g_finalWidth g, g_finalHeight g))
   \<and> map (\<lambda>tier. map (\<lambda>code.
          case resolveGeometry DEFAULT_MODEL []
                 \<lparr>opt_ratio = Some code, opt_resolution = Some tier,
                  opt_sampleStrength = None, opt_negativePrompt = None,
                  opt_filePath = None\<rparr> of
            Inl e \<Rightarrow> None
          | Inr g \<Rightarrow> Some (g_finalWidth g, g_finalHeight g)) ASPECT_RATIOS) [''1k'', ''2k'']
     = [[Some (2016, 846), Some (1664, 936), Some (1584, 1056), Some (1472, 1104),
         Some (1328, 1328), Some (1104, 1472), Some (1056, 1584), Some (936, 1664)],
        [Some (3024, 1296), Some (2560, 1440), Some (2496, 1664), Some (2304, 1728),
         Some (2048, 2048), Some (1728, 2304), Some (1664, 2496), Some (1440, 2560)]]"
proof (rule conjI)
  from resolveGeometry_total [of modelName opts prompt]
  obtain d where
    d: "map_of (dimensionMap (resolutionType modelName (default_to ''2k'' (opt_resolution opts))))
          (validRatio (default_to ''1:1'' (opt_ratio opts)) prompt) = Some d"
    and g: "resolveGeometry modelName prompt opts =
         Inr \<lparr>g_resolutionType = resolutionType modelName (default_to ''2k'' (opt_resolution opts)),
              g_validRatio = validRatio (default_to ''1:1'' (opt_ratio opts)) prompt,
              g_imageRatio =
                map_of RATIO_VALUES (validRatio (default_to ''1:1'' (opt_ratio opts)) prompt),
              g_finalWidth = width d, g_finalHeight = height d\<rparr>"
    by blast
  from dimension_lookup
      [where vr = "validRatio (default_to ''1:1'' (opt_ratio opts)) prompt"
         and rt = "resolutionType modelName (default_to ''2k'' (opt_resolution opts))",
       OF validRatio_supported resolutionType_range] d
  have "map_of
        [((''1k'', ''21:9''), (2016, 846)), ((''1k'', ''16:9''), (1664, 936)),
         ((''1k'', ''3:2''), (1584, 1056)), ((''1k'', ''4:3''), (1472, 1104)),
         ((''1k'', ''1:1''), (1328, 1328)), ((''1k'', ''3:4''), (1104, 1472)),
         ((''1k'', ''2:3''), (1056, 1584)), ((''1k'', ''9:16''), (936, 1664)),
         ((''2k'', ''21:9''), (3024, 1296)), ((''2k'', ''16:9''), (2560, 1440)),
         ((''2k'', ''3:2''), (2496, 1664)), ((''2k'', ''4:3''), (2304, 1728)),
         ((''2k'', ''1:1''), (2048, 2048)), ((''2k'', ''3:4''), (1728, 2304)),
         ((''2k'', ''2:3''), (1664, 2496)), ((''2k'', ''9:16''), (1440, 2560))]
        (resolutionType modelName (default_to ''2k'' (opt_resolution opts)),
         validRatio (default_to ''1:1'' (opt_ratio opts)) prompt) = Some (width d, height d)"
    by (simp del: map_of.simps)
  with g resolutionType_range [of modelName "default_to ''2k'' (opt_resolution opts)"]
    validRatio_supported [of "default_to ''1:1'' (opt_ratio opts)" prompt]
  show "\<exists>g. resolveGeometry modelName prompt opts = Inr g
      \<and> (g_resolutionType g = ''1k'' \<or> g_resolutionType g = ''2k'')
      \<and> g_validRatio g \<in> set ASPECT_RATIOS
      \<and> map_of
        [((''1k'', ''21:9''), (2016, 846)), ((''1k'', ''16:9''), (1664, 936)),
         ((''1k'', ''3:2''), (1584, 1056)), ((''1k'', ''4:3''), (1472, 1104)),
         ((''1k'', ''1:1''), (1328, 1328)), ((''1k'', ''3:4''), (1104, 1472)),
         ((''1k'', ''2:3''), (1056, 1584)), ((''1k'', ''9:16''), (936, 1664)),
         ((''2k'', ''21:9''), (3024, 1296)), ((''2k'', ''16:9''), (2560, 1440)),
         ((''2k'', ''3:2''), (2496, 1664)), ((''2k'', ''4:3''), (2304, 1728)),
         ((''2k'', ''1:1''), (2048, 2048)), ((''2k'', ''3:4''), (1728, 2304)),
         ((''2k'', ''2:3''), (1664, 2496)), ((''2k'', ''9:16''), (1440, 2560))]
        (g_resolutionType g, g_validRatio g) = Some (g_finalWidth g, g_finalHeight g)"
    by (simp del: map_of.simps)
next
  show "map (\<lambda>tier. map (\<lambda>code.
          case resolveGeometry DEFAULT_MODEL []
                 \<lparr>opt_ratio = Some code, opt_resolution = Some tier,
                  opt_sampleStrength = None, opt_negativePrompt = None,
                  opt_filePath = None\<rparr> of
            Inl e \<Rightarrow> None
          | Inr g \<Rightarrow> Some (g_finalWidth g, g_finalHeight g)) ASPECT_RATIOS) [''1k'', ''2k'']
     = [[Some (2016, 846), Some (1664, 936), Some (1584, 1056), Some (1472, 1104),
         Some (1328, 1328), Some (1104, 1472), Some (1056, 1584), Some (936, 1664)],
        [Some (3024, 1296), Some (2560, 1440), Some (2496, 1664), Some (2304, 1728),
         Some (2048, 2048), Some (1728, 2304), Some (1664, 2496), Some (1440, 2560)]]"
    by code_simp
qed

text \<open>The default model with the hints \<^verbatim>\<open>"16:9"\<close> and \<^verbatim>\<open>"2k"\<close>: 2560 by 1440.\<close>

theorem C6_dimension_table_witness:
  "\<exists>g. resolveGeometry ''jimeng-image-4.5'' ''a cat''
          \<lparr>opt_ratio = Some ''16:9'', opt_resolution = Some ''2k'',
           opt_sampleStrength = None, opt_negativePrompt = None, opt_filePath = None\<rparr> = Inr g
     \<and> g_resolutionType g = ''2k'' \<and> g_validRatio g = ''16:9''
     \<and> g_finalWidth g = 2560 \<and> g_finalHeight g = 1440"
proof -
  have e: "resolveGeometry ''jimeng-image-4.5'' ''a cat''
          \<lparr>opt_ratio = Some ''16:9'', opt_resolution = Some ''2k'',
           opt_sampleStrength = None, opt_negativePrompt = None, opt_filePath = None\<rparr> =
        Inr \<lparr>g_resolutionType = ''2k'', g_validRatio = ''16:9'', g_imageRatio = Some 1,
             g_finalWidth = 2560, g_finalHeight = 1440\<rparr>"
    by code_simp
  from C6_dimension_table [THEN conjunct1, of "''jimeng-image-4.5''" "''a cat''"
      "\<lparr>opt_ratio = Some ''16:9'', opt_resolution = Some ''2k'',
        opt_sampleStrength = None, opt_negativePrompt = None, opt_filePath = None\<rparr>"]
  show ?thesis
    unfolding e by simp
qed


section \<open>Properties of the polling loop\<close>

lemma pollLoop_continue:
  assumes "status \<in> set PROCESSING_STATES" "empty_items item_list"
    "retryCount < MAX_POLL_RETRIES" "history_r E (polls t) = Inr (Some r)"
  shows "pollLoop E status failCode item_list retryCount t =
    pollLoop E (h_status r) (h_fail_code r) (h_item_list r) (retryCount + 1)
      (t\<lparr>polls := polls t + 1\<rparr>)"
  using assms by (subst pollLoop.simps) simp

lemma pollLoop_missing:
  assumes "status \<in> set PROCESSING_STATES" "empty_items item_list"
    "retryCount < MAX_POLL_RETRIES" "history_r E (polls t) = Inr None"
  shows "pollLoop E status failCode item_list retryCount t =
    (Inl (APIException API_IMAGE_GENERATION_FAILED (Some msg_no_record)),
     t\<lparr>polls := polls t + 1\<rparr>)"
  using assms by (subst pollLoop.simps) simp

lemma pollLoop_stop:
  assumes "\<not> (status \<in> set PROCESSING_STATES \<and> empty_items item_list
    \<and> retryCount < MAX_POLL_RETRIES)"
  shows "pollLoop E status failCode item_list retryCount t =
    (Inr (status, failCode, item_list, retryCount), t)"
  using assms by (subst pollLoop.simps) auto

lemma pollLoop_run:
  assumes "\<forall>i<n. history_r E (polls t + i) = Inr (Some (rs i)) \<and> still_processing (rs i)"
    and "n \<le> MAX_POLL_RETRIES"
  shows "pollLoop E 20 Undefined (Some []) 0 t =
    (case n of
       0 \<Rightarrow> pollLoop E 20 Undefined (Some []) 0 t
     | Suc m \<Rightarrow>
         pollLoop E (h_status (rs m)) (h_fail_code (rs m)) (h_item_list (rs m)) n
           (t\<lparr>polls := polls t + n\<rparr>))"
  using assms
proof (induction n)
  case 0
  show ?case by simp
next
  case (Suc n)
  then have IH: "pollLoop E 20 Undefined (Some []) 0 t =
    (case n of
       0 \<Rightarrow> pollLoop E 20 Undefined (Some []) 0 t
     | Suc m \<Rightarrow>
         pollLoop E (h_status (rs m)) (h_fail_code (rs m)) (h_item_list (rs m)) n
           (t\<lparr>polls := polls t + n\<rparr>))"
    by simp
  from Suc.prems have n: "n < MAX_POLL_RETRIES"
    and h: "history_r E (polls t + n) = Inr (Some (rs n))"
    by simp_all
  show ?case
  proof (cases n)
    case 0
    have "pollLoop E 20 Undefined (Some []) 0 t =
      pollLoop E (h_status (rs 0)) (h_fail_code (rs 0)) (h_item_list (rs 0)) (0 + 1)
        (t\<lparr>polls := polls t + 1\<rparr>)"
      using n h unfolding 0
      by (intro pollLoop_continue) (simp_all add: PROCESSING_STATES_def empty_items_def)
    then show ?thesis
      unfolding 0 by simp
  next
    case (Suc m)
    from Suc.prems have "still_processing (rs m)"
      unfolding Suc by simp
    then have "pollLoop E (h_status (rs m)) (h_fail_code (rs m)) (h_item_list (rs m)) n
        (t\<lparr>polls := polls t + n\<rparr>) =
      pollLoop E (h_status (rs n)) (h_fail_code (rs n)) (h_item_list (rs n)) (n + 1)
        (t\<lparr>polls := polls t + n, polls := polls (t\<lparr>polls := polls t + n\<rparr>) + 1\<rparr>)"
      using n h by (intro pollLoop_continue) (simp_all add: still_processing_def)
    with IH show ?thesis
      unfolding Suc by simp
  qed
qed

lemma pollLoop_polls_only:
  "snd (pollLoop E status failCode item_list retryCount t) =
     t\<lparr>polls := polls (snd (pollLoop E status failCode item_list retryCount t))\<rparr>"
proof (induction E status failCode item_list retryCount t rule: pollLoop.induct)
  case (1 E status failCode item_list retryCount t)
  show ?case
  proof (cases "status \<in> set PROCESSING_STATES \<and> empty_items item_list
        \<and> retryCount < MAX_POLL_RETRIES")
    case False
    then show ?thesis by (simp add: pollLoop_stop)
  next
    case True
    show ?thesis
    proof (cases "history_r E (polls t)")
      case (Inl e)
      with True show ?thesis by (subst (1 2) pollLoop.simps) simp
    next
      case (Inr ro)
      show ?thesis
      proof (cases ro)
        case None
        with True Inr show ?thesis by (simp add: pollLoop_missing)
      next
        case (Some r)
        from "1.IH" [OF True Inr Some]
        have "snd (pollLoop E (h_status r) (h_fail_code r) (h_item_list r) (retryCount + 1)
                (t\<lparr>polls := polls t + 1\<rparr>)) =
              t\<lparr>polls := polls t + 1,
                polls := polls (snd (pollLoop E (h_status r) (h_fail_code r) (h_item_list r)
                  (retryCount + 1) (t\<lparr>polls := polls t + 1\<rparr>)))\<rparr>"
          by simp
        with True Inr Some show ?thesis
          by (simp add: pollLoop_continue [where r = r])
      qed
    qed
  qed
qed

lemma pollLoop_bound:
  "polls (snd (pollLoop E status failCode item_list retryCount t))
     \<le> polls t + (MAX_POLL_RETRIES - retryCount)"
proof (induction E status failCode item_list retryCount t rule: pollLoop.induct)
  case (1 E status failCode item_list retryCount t)
  show ?case
  proof (cases "status \<in> set PROCESSING_STATES \<and> empty_items item_list
        \<and> retryCount < MAX_POLL_RETRIES")
    case False
    then show ?thesis by (simp add: pollLoop_stop)
  next
    case True
    show ?thesis
    proof (cases "history_r E (polls t)")
      case (Inl e)
      with True show ?thesis by (subst pollLoop.simps) auto
    next
      case (Inr ro)
      show ?thesis
      proof (cases ro)
        case None
        with True Inr show ?thesis by (auto simp: pollLoop_missing)
      next
        case (Some r)
        with True Inr "1.IH" [OF True Inr Some]
        show ?thesis
          by (auto simp: pollLoop_continue [where r = r])
      qed
    qed
  qed
qed


lemma pollLoop_result:
  assumes run: "\<forall>i<k. history_r E (polls t + i) = Inr (Some (rs i)) \<and> still_processing (rs i)"
    and r: "history_r E (polls t + k) = Inr (Some r)"
    and k: "k < MAX_POLL_RETRIES"
    and stop: "\<not> still_processing r \<or> k + 1 = MAX_POLL_RETRIES"
  shows "pollLoop E 20 Undefined (Some []) 0 t =
    (Inr (h_status r, h_fail_code r, h_item_list r, k + 1), t\<lparr>polls := polls t + (k + 1)\<rparr>)"
proof -
  have reach: "pollLoop E 20 Undefined (Some []) 0 t =
    pollLoop E (h_status r) (h_fail_code r) (h_item_list r) (k + 1)
      (t\<lparr>polls := polls t + (k + 1)\<rparr>)"
  proof (cases k)
    case 0
    have "pollLoop E 20 Undefined (Some []) 0 t =
      pollLoop E (h_status r) (h_fail_code r) (h_item_list r) (0 + 1)
        (t\<lparr>polls := polls t + 1\<rparr>)"
      using r k unfolding 0
      by (intro pollLoop_continue) (simp_all add: PROCESSING_STATES_def empty_items_def)
    then show ?thesis
      unfolding 0 by simp
  next
    case (Suc m)
    from run have "still_processing (rs m)"
      unfolding Suc by simp
    then have "pollLoop E (h_status (rs m)) (h_fail_code (rs m)) (h_item_list (rs m)) k
        (t\<lparr>polls := polls t + k\<rparr>) =
      pollLoop E (h_status r) (h_fail_code r) (h_item_list r) (k + 1)
        (t\<lparr>polls := polls t + k, polls := polls (t\<lparr>polls := polls t + k\<rparr>) + 1\<rparr>)"
      using r k by (intro pollLoop_continue) (simp_all add: still_processing_def)
    moreover from pollLoop_run [OF run] k
    have "pollLoop E 20 Undefined (Some []) 0 t =
      pollLoop E (h_status (rs m)) (h_fail_code (rs m)) (h_item_list (rs m)) k
        (t\<lparr>polls := polls t + k\<rparr>)"
      unfolding Suc by simp
    ultimately show ?thesis
      by simp
  qed
  from stop have "\<not> (h_status r \<in> set PROCESSING_STATES \<and> empty_items (h_item_list r)
      \<and> k + 1 < MAX_POLL_RETRIES)"
    by (auto simp: still_processing_def)
  then show ?thesis
    unfolding reach by (rule pollLoop_stop)
qed

lemma pollLoop_result_missing:
  assumes run: "\<forall>i<k. history_r E (polls t + i) = Inr (Some (rs i)) \<and> still_processing (rs i)"
    and r: "history_r E (polls t + k) = Inr None"
    and k: "k < MAX_POLL_RETRIES"
  shows "pollLoop E 20 Undefined (Some []) 0 t =
    (Inl (APIException API_IMAGE_GENERATION_FAILED (Some msg_no_record)),
     t\<lparr>polls := polls t + (k + 1)\<rparr>)"
proof (cases k)
  case 0
  have "pollLoop E 20 Undefined (Some []) 0 t =
    (Inl (APIException API_IMAGE_GENERATION_FAILED (Some msg_no_record)),
     t\<lparr>polls := polls t + 1\<rparr>)"
    using r k unfolding 0
    by (intro pollLoop_missing) (simp_all add: PROCESSING_STATES_def empty_items_def)
  then show ?thesis
    unfolding 0 by simp
next
  case (Suc m)
  from run have "still_processing (rs m)"
    unfolding Suc by simp
  then have "pollLoop E (h_status (rs m)) (h_fail_code (rs m)) (h_item_list (rs m)) k
      (t\<lparr>polls := polls t + k\<rparr>) =
    (Inl (APIException API_IMAGE_GENERATION_FAILED (Some msg_no_record)),
     t\<lparr>polls := polls t + k, polls := polls (t\<lparr>polls := polls t + k\<rparr>) + 1\<rparr>)"
    using r k by (intro pollLoop_missing) (simp_all add: still_processing_def)
  moreover from pollLoop_run [OF run] k
  have "pollLoop E 20 Undefined (Some []) 0 t =
    pollLoop E (h_status (rs m)) (h_fail_code (rs m)) (h_item_list (rs m)) k
      (t\<lparr>polls := polls t + k\<rparr>)"
    unfolding Suc by simp
  ultimately show ?thesis
    by simp
qed

text \<open>The records behind processing replies.\<close>

lemma processing_replies:
  assumes "\<forall>i<k. processing_reply (history_r E (p + i))"
  shows "\<exists>rs. \<forall>i<k. history_r E (p + i) = Inr (Some (rs i)) \<and> still_processing (rs i)"
proof -
  let ?rs = "\<lambda>i. case history_r E (p + i) of Inr (Some r) \<Rightarrow> r"
  from assms have "\<forall>i<k. history_r E (p + i) = Inr (Some (?rs i)) \<and> still_processing (?rs i)"
    by (auto simp: processing_reply_def split: sum.splits option.splits)
  then show ?thesis by (rule exI [where x = ?rs])
qed

lemma polling_terminal:
  assumes "\<forall>i<k. processing_reply (history_r E (polls t + i))"
    and "history_r E (polls t + k) = Inr (Some r)"
    and "k + 1 < MAX_POLL_RETRIES"
    and "\<not> still_processing r"
  shows "polling E t = (conclude (h_status r) (h_fail_code r) (h_item_list r), t\<lparr>polls := polls t + (k + 1)\<rparr>)"
proof -
  from processing_replies [OF assms(1)] obtain rs where
    "\<forall>i<k. history_r E (polls t + i) = Inr (Some (rs i)) \<and> still_processing (rs i)" ..
  from pollLoop_result [OF this assms(2)] assms(3,4)
  have "pollLoop E 20 Undefined (Some []) 0 t =
    (Inr (h_status r, h_fail_code r, h_item_list r, k + 1), t\<lparr>polls := polls t + (k + 1)\<rparr>)"
    by simp
  with assms(3) show ?thesis
    by (simp add: polling_def)
qed

lemma polling_exhausted:
  assumes "\<forall>i<k. processing_reply (history_r E (polls t + i))"
    and "history_r E (polls t + k) = Inr (Some r)"
    and "k + 1 = MAX_POLL_RETRIES"
  shows "polling E t =
    (Inl (APIException API_IMAGE_GENERATION_FAILED (Some msg_timeout)),
     t\<lparr>polls := polls t + MAX_POLL_RETRIES\<rparr>)"
proof -
  from processing_replies [OF assms(1)] obtain rs where
    "\<forall>i<k. history_r E (polls t + i) = Inr (Some (rs i)) \<and> still_processing (rs i)" ..
  from pollLoop_result [OF this assms(2)] assms(3)
  have "pollLoop E 20 Undefined (Some []) 0 t =
    (Inr (h_status r, h_fail_code r, h_item_list r, k + 1), t\<lparr>polls := polls t + (k + 1)\<rparr>)"
    by simp
  with assms(3) show ?thesis
    by (simp add: polling_def)
qed

lemma polling_missing:
  assumes "\<forall>i<k. processing_reply (history_r E (polls t + i))"
    and "history_r E (polls t + k) = Inr None"
    and "k < MAX_POLL_RETRIES"
  shows "polling E t =
    (Inl (APIException API_IMAGE_GENERATION_FAILED (Some msg_no_record)),
     t\<lparr>polls := polls t + (k + 1)\<rparr>)"
proof -
  from processing_replies [OF assms(1)] obtain rs where
    "\<forall>i<k. history_r E (polls t + i) = Inr (Some (rs i)) \<and> still_processing (rs i)" ..
  from pollLoop_result_missing [OF this assms(2,3)]
  show ?thesis
    by (simp add: polling_def)
qed

lemma polling_bound: "polls (snd (polling E t)) \<le> polls t + MAX_POLL_RETRIES"
proof -
  have "polls (snd (polling E t)) = polls (snd (pollLoop E 20 Undefined (Some []) 0 t))"
    by (simp add: polling_def split: prod.splits sum.splits option.splits)
  with pollLoop_bound [of E 20 Undefined "Some []" 0 t] show ?thesis
    by simp
qed

lemma polling_polls_only: "snd (polling E t) = t\<lparr>polls := polls (snd (polling E t))\<rparr>"
proof -
  have "snd (polling E t) = snd (pollLoop E 20 Undefined (Some []) 0 t)"
    by (simp add: polling_def split: prod.splits sum.splits option.splits)
  with pollLoop_polls_only [of E 20 Undefined "Some []" 0 t] show ?thesis
    by simp
qed



section \<open>Properties of generateImages\<close>

lemma uploadReference_trace:
  "snd (uploadReference H E filePath t) = t\<lparr>uploads := uploads (snd (uploadReference H E filePath t))\<rparr>"
  by (simp add: uploadReference_def split: sum.splits)

lemma ensureCredit_trace:
  "snd (ensureCredit E t) =
     t\<lparr>credit_reads := credit_reads (snd (ensureCredit E t)),
       credit_receives := credit_receives (snd (ensureCredit E t))\<rparr>"
  by (simp add: ensureCredit_def Let_def split: sum.splits)

lemma submitDraft_trace:
  "snd (submitDraft E rd t) = t\<lparr>submitted := submitted t @ [rd]\<rparr>"
  by (simp add: submitDraft_def Let_def split: sum.splits)


lemma uploadReference_keeps:
  assumes "uploadReference H E filePath t = (r, t1)"
  shows "polls t1 = polls t" "attempts t1 = attempts t" "submitted t1 = submitted t"
    "credit_reads t1 = credit_reads t" "credit_receives t1 = credit_receives t"
    "randoms t1 = randoms t"
  using assms uploadReference_trace [of H E filePath t]
  by (cases t1; cases t; simp)+

lemma uploadReference_Inr:
  assumes "uploadReference H E filePath t = (Inr uploadID, t1)"
  shows "if filePath = [] then uploadID = None else uploadFile_r E (uploads t) = Inr uploadID"
  using assms by (auto simp: uploadReference_def split: sum.splits if_splits)

lemma ensureCredit_keeps:
  assumes "ensureCredit E t = (r, t1)"
  shows "polls t1 = polls t" "attempts t1 = attempts t" "submitted t1 = submitted t"
    "randoms t1 = randoms t" "uploads t1 = uploads t"
  using assms ensureCredit_trace [of E t]
  by (cases t1; cases t; simp)+

lemma submitDraft_keeps:
  assumes "submitDraft E rd t = (r, t1)"
  shows "polls t1 = polls t" "attempts t1 = attempts t" "submitted t1 = submitted t @ [rd]"
  using assms submitDraft_trace [of E rd t]
  by (cases t1; cases t; simp)+


lemma submission_cases:
  obtains (failed) e t' where
      "submission H E modelName prompt opts t = (Inl e, t')"
      "polls t' = polls t" "attempts t' = attempts t" "submitted t' = submitted t"
  | (sent) r t' g uploadID seed where
      "submission H E modelName prompt opts t = (r, t')"
      "polls t' = polls t" "attempts t' = attempts t"
      "submitted t' = submitted t @
         [buildRequestData H modelName (getModel modelName) prompt opts g
            (default_to [] (opt_filePath opts) \<noteq> []) uploadID seed]"
      "if default_to [] (opt_filePath opts) = [] then uploadID = None
       else uploadFile_r E (uploads t) = Inr uploadID"
proof -
  let ?f = "default_to [] (opt_filePath opts)"
  obtain r1 t1 where u: "uploadReference H E ?f t = (r1, t1)"
    by fastforce
  note k1 = uploadReference_keeps [OF u]
  show thesis
  proof (cases r1)
    case (Inl e)
    with u have "submission H E modelName prompt opts t = (Inl e, t1)"
      by (simp add: submission_def Let_def)
    then show thesis using k1(1,2,3) by (rule failed)
  next
    case r1: (Inr uploadID)
    show thesis
    proof (cases "resolveGeometry modelName prompt opts")
      case (Inl e)
      with u r1 have "submission H E modelName prompt opts t = (Inl e, t1)"
        by (simp add: submission_def Let_def)
      then show thesis using k1(1,2,3) by (rule failed)
    next
      case g: (Inr g)
      obtain r2 t2 where c: "ensureCredit E t1 = (r2, t2)"
        by fastforce
      note k2 = ensureCredit_keeps [OF c]
      show thesis
      proof (cases r2)
        case (Inl e)
        with u r1 g c have "submission H E modelName prompt opts t = (Inl e, t2)"
          by (simp add: submission_def Let_def)
        moreover have "polls t2 = polls t" "attempts t2 = attempts t"
          "submitted t2 = submitted t"
          using k1 k2 by simp_all
        ultimately show thesis by (rule failed)
      next
        case r2: (Inr x)
        let ?t3 = "if ?f \<noteq> [] \<and> truthy uploadID then t2 else t2\<lparr>randoms := randoms t2 + 1\<rparr>"
        let ?rd = "buildRequestData H modelName (getModel modelName) prompt opts g
            (?f \<noteq> []) uploadID (drawSeed E t2)"
        obtain r3 t4 where d: "submitDraft E ?rd ?t3 = (r3, t4)"
          by fastforce
        note k3 = submitDraft_keeps [OF d]
        from u r1 g c r2 d have "submission H E modelName prompt opts t = (r3, t4)"
          by (simp add: submission_def Let_def)
        moreover have "polls t4 = polls t" "attempts t4 = attempts t"
          "submitted t4 = submitted t @ [?rd]"
          using k1 k2 k3 by simp_all
        moreover have "if ?f = [] then uploadID = None
          else uploadFile_r E (uploads t) = Inr uploadID"
          using uploadReference_Inr [of H E ?f t uploadID t1] u r1 by simp
        ultimately show thesis by (rule sent)
      qed
    qed
  qed
qed

lemma submission_polls: "polls (snd (submission H E modelName prompt opts t)) = polls t"
  by (cases rule: submission_cases [of H E modelName prompt opts t]) simp_all

lemma submission_attempts: "attempts (snd (submission H E modelName prompt opts t)) = attempts t"
  by (cases rule: submission_cases [of H E modelName prompt opts t]) simp_all

lemma generateImages_polling:
  assumes "fst (submission H E modelName prompt opts t) = Inr historyId"
  shows "generateImages H E modelName prompt opts t =
    polling E (snd (submission H E modelName prompt opts t))"
  using assms
  by (cases "submission H E modelName prompt opts t") (simp add: generateImages_def)

lemma generateImages_failed:
  assumes "fst (submission H E modelName prompt opts t) = Inl e"
  shows "generateImages H E modelName prompt opts t =
    (Inl e, snd (submission H E modelName prompt opts t))"
  using assms
  by (cases "submission H E modelName prompt opts t") (simp add: generateImages_def)

lemma generateImages_keeps:
  "attempts (snd (generateImages H E modelName prompt opts t)) = attempts t"
  "submitted (snd (generateImages H E modelName prompt opts t)) =
     submitted (snd (submission H E modelName prompt opts t))"
proof -
  let ?s = "submission H E modelName prompt opts t"
  have "attempts (snd (generateImages H E modelName prompt opts t)) = attempts (snd ?s)
    \<and> submitted (snd (generateImages H E modelName prompt opts t)) = submitted (snd ?s)"
  proof (cases "fst ?s")
    case (Inl e)
    then show ?thesis by (simp add: generateImages_failed)
  next
    case (Inr h)
    from polling_polls_only [of E "snd ?s"]
    have "attempts (snd (polling E (snd ?s))) = attempts (snd ?s)"
      "submitted (snd (polling E (snd ?s))) = submitted (snd ?s)"
      by (cases "snd (polling E (snd ?s))"; cases "snd ?s"; simp)+
    with Inr show ?thesis by (simp add: generateImages_polling)
  qed
  then show "attempts (snd (generateImages H E modelName prompt opts t)) = attempts t"
    "submitted (snd (generateImages H E modelName prompt opts t)) =
     submitted (snd (submission H E modelName prompt opts t))"
    by (simp_all add: submission_attempts)
qed


lemma submission_succeeds:
  assumes "default_to [] (opt_filePath opts) = [] \<or> (\<exists>u. uploadFile_r E (uploads t) = Inr u)"
    and "getCredit_r E (credit_reads t) = Inr c" and "0 < c"
    and "generate_r E (length (submitted t)) = Inr (Some historyId)" and "historyId \<noteq> []"
  shows "fst (submission H E modelName prompt opts t) = Inr historyId"
proof -
  from resolveGeometry_total [of modelName opts prompt]
  obtain g where "resolveGeometry modelName prompt opts = Inr g"
    by blast
  with assms show ?thesis
    by (auto simp: submission_def uploadReference_def ensureCredit_def submitDraft_def Let_def)
qed

lemma sample_submission:
  "fst (submission sample_host (sample_env (\<lambda>n. Inr (Some ''h1'')) h) ''jimeng-image-4.5''
     ''a cat'' no_options empty_trace) = Inr ''h1''"
  by (rule submission_succeeds [where c = 10])
     (simp_all add: sample_env_def no_options_def empty_trace_def)

lemma conclude_not_timeout:
  "conclude status failCode item_list
     \<noteq> Inl (APIException API_IMAGE_GENERATION_FAILED (Some msg_timeout))"
  by (simp add: conclude_def split: option.splits)

text \<open>
  Claim C2.  Once the draft is submitted, a run issues at most 120 history queries.
  When the replies are processing records up to a first record that is not (status
  outside \<^verbatim>\<open>{20, 42, 45}\<close>, or a result list that is not empty) and that record comes
  with a query before the 120th, the run ends with that query and with the result of
  lines 551 to 559 for the record, which is not the timeout error.  When the first 120
  replies are all processing records, the run fails with the timeout error after 120
  queries.
\<close>

theorem C2_polling_bounded:
  assumes "fst (submission H E modelName prompt opts t) = Inr historyId"
  shows "polls (snd (generateImages H E modelName prompt opts t)) \<le> polls t + 120
    \<and> (\<forall>k r. k + 1 < 120
          \<and> (\<forall>i<k. processing_reply (history_r E (polls t + i)))
          \<and> history_r E (polls t + k) = Inr (Some r) \<and> \<not> still_processing r
        \<longrightarrow> fst (generateImages H E modelName prompt opts t) =
              conclude (h_status r) (h_fail_code r) (h_item_list r)
          \<and> fst (generateImages H E modelName prompt opts t) \<noteq>
              Inl (APIException API_IMAGE_GENERATION_FAILED (Some msg_timeout))
          \<and> polls (snd (generateImages H E modelName prompt opts t)) = polls t + (k + 1))
    \<and> ((\<forall>i<120. processing_reply (history_r E (polls t + i)))
        \<longrightarrow> fst (generateImages H E modelName prompt opts t) =
              Inl (APIException API_IMAGE_GENERATION_FAILED (Some msg_timeout))
          \<and> polls (snd (generateImages H E modelName prompt opts t)) = polls t + 120)"
proof -
  let ?t0 = "snd (submission H E modelName prompt opts t)"
  have g: "generateImages H E modelName prompt opts t = polling E ?t0"
    using assms by (rule generateImages_polling)
  have p: "polls ?t0 = polls t"
    by (rule submission_polls)
  have bound: "polls (snd (generateImages H E modelName prompt opts t)) \<le> polls t + 120"
    using polling_bound [of E ?t0] by (simp add: g p MAX_POLL_RETRIES_def)
  have terminal: "fst (generateImages H E modelName prompt opts t) =
              conclude (h_status r) (h_fail_code r) (h_item_list r)
          \<and> fst (generateImages H E modelName prompt opts t) \<noteq>
              Inl (APIException API_IMAGE_GENERATION_FAILED (Some msg_timeout))
          \<and> polls (snd (generateImages H E modelName prompt opts t)) = polls t + (k + 1)"
    if "k + 1 < 120" "\<forall>i<k. processing_reply (history_r E (polls t + i))"
      "history_r E (polls t + k) = Inr (Some r)" "\<not> still_processing r" for k r
  proof -
    from that have "polling E ?t0 =
      (conclude (h_status r) (h_fail_code r) (h_item_list r), ?t0\<lparr>polls := polls ?t0 + (k + 1)\<rparr>)"
      by (intro polling_terminal) (simp_all add: p MAX_POLL_RETRIES_def)
    then show ?thesis
      by (simp add: g p conclude_not_timeout)
  qed
  have exhausted: "fst (generateImages H E modelName prompt opts t) =
              Inl (APIException API_IMAGE_GENERATION_FAILED (Some msg_timeout))
          \<and> polls (snd (generateImages H E modelName prompt opts t)) = polls t + 120"
    if all: "\<forall>i<120. processing_reply (history_r E (polls t + i))"
  proof -
    from all have "processing_reply (history_r E (polls t + 119))"
      by simp
    then obtain r where r: "history_r E (polls ?t0 + 119) = Inr (Some r)"
      by (auto simp: p processing_reply_def split: sum.splits option.splits)
    from all have "\<forall>i<119. processing_reply (history_r E (polls ?t0 + i))"
      by (simp add: p)
    from polling_exhausted [OF this r]
    have "polling E ?t0 =
      (Inl (APIException API_IMAGE_GENERATION_FAILED (Some msg_timeout)),
       ?t0\<lparr>polls := polls ?t0 + MAX_POLL_RETRIES\<rparr>)"
      by (simp add: MAX_POLL_RETRIES_def)
    then show ?thesis
      by (simp add: g p MAX_POLL_RETRIES_def)
  qed
  from bound terminal exhausted show ?thesis
    by blast
qed

text \<open>
  Three queued replies and then a finished job: one URL after four queries.  Queued
  replies for ever: the timeout after 120 queries.
\<close>

theorem C2_polling_bounded_witness:
  "fst (generateImages sample_host
      (sample_env (\<lambda>n. Inr (Some ''h1''))
         (\<lambda>n. if n < 3 then Inr (Some queued) else Inr (Some finished)))
      ''jimeng-image-4.5'' ''a cat'' no_options empty_trace) = Inr [Some ''https://x/img1.png'']
   \<and> polls (snd (generateImages sample_host
      (sample_env (\<lambda>n. Inr (Some ''h1''))
         (\<lambda>n. if n < 3 then Inr (Some queued) else Inr (Some finished)))
      ''jimeng-image-4.5'' ''a cat'' no_options empty_trace)) = 4
   \<and> fst (generateImages sample_host
      (sample_env (\<lambda>n. Inr (Some ''h1'')) (\<lambda>n. Inr (Some queued)))
      ''jimeng-image-4.5'' ''a cat'' no_options empty_trace) =
       Inl (APIException API_IMAGE_GENERATION_FAILED (Some msg_timeout))
   \<and> polls (snd (generateImages sample_host
      (sample_env (\<lambda>n. Inr (Some ''h1'')) (\<lambda>n. Inr (Some queued)))
      ''jimeng-image-4.5'' ''a cat'' no_options empty_trace)) = 120"
proof -
  have q: "still_processing queued" "\<not> still_processing finished"
    by (simp_all add: still_processing_def queued_def finished_def PROCESSING_STATES_def
        empty_items_def)
  have c: "conclude (h_status finished) (h_fail_code finished) (h_item_list finished) =
    Inr [Some ''https://x/img1.png'']"
    by (simp add: conclude_def finished_def FAIL_STATE_def item_url_def)
  note a = C2_polling_bounded [OF sample_submission, THEN conjunct2, THEN conjunct1,
      rule_format, of 3 _ finished]
  note b = C2_polling_bounded [OF sample_submission, THEN conjunct2, THEN conjunct2,
      rule_format]
  have "fst (generateImages sample_host
      (sample_env (\<lambda>n. Inr (Some ''h1''))
         (\<lambda>n. if n < 3 then Inr (Some queued) else Inr (Some finished)))
      ''jimeng-image-4.5'' ''a cat'' no_options empty_trace) = Inr [Some ''https://x/img1.png'']
   \<and> polls (snd (generateImages sample_host
      (sample_env (\<lambda>n. Inr (Some ''h1''))
         (\<lambda>n. if n < 3 then Inr (Some queued) else Inr (Some finished)))
      ''jimeng-image-4.5'' ''a cat'' no_options empty_trace)) = 4"
    using a [of "\<lambda>n. if n < 3 then Inr (Some queued) else Inr (Some finished)"]
    by (simp add: sample_env_def empty_trace_def processing_reply_def q c)
  moreover have "fst (generateImages sample_host
      (sample_env (\<lambda>n. Inr (Some ''h1'')) (\<lambda>n. Inr (Some queued)))
      ''jimeng-image-4.5'' ''a cat'' no_options empty_trace) =
       Inl (APIException API_IMAGE_GENERATION_FAILED (Some msg_timeout))
   \<and> polls (snd (generateImages sample_host
      (sample_env (\<lambda>n. Inr (Some ''h1'')) (\<lambda>n. Inr (Some queued)))
      ''jimeng-image-4.5'' ''a cat'' no_options empty_trace)) = 120"
    using b [of "\<lambda>n. Inr (Some queued)"]
    by (simp add: sample_env_def empty_trace_def processing_reply_def q)
  ultimately show ?thesis
    by simp
qed


text \<open>
  Claim C9.  When the first 119 replies are processing records, the run fails with the
  timeout error after the 120th query whatever record that query returns, a finished
  job included: the check of line 547 looks at the retry count alone.
\<close>

theorem C9_last_poll_discarded:
  assumes "fst (submission H E modelName prompt opts t) = Inr historyId"
    and "\<forall>i<119. processing_reply (history_r E (polls t + i))"
    and "history_r E (polls t + 119) = Inr (Some r)"
  shows "fst (generateImages H E modelName prompt opts t) =
      Inl (APIException API_IMAGE_GENERATION_FAILED (Some msg_timeout))
    \<and> polls (snd (generateImages H E modelName prompt opts t)) = polls t + 120"
proof -
  let ?t0 = "snd (submission H E modelName prompt opts t)"
  have p: "polls ?t0 = polls t"
    by (rule submission_polls)
  from assms(2,3) have "polling E ?t0 =
      (Inl (APIException API_IMAGE_GENERATION_FAILED (Some msg_timeout)),
       ?t0\<lparr>polls := polls ?t0 + MAX_POLL_RETRIES\<rparr>)"
    by (intro polling_exhausted [where k = 119]) (simp_all add: p MAX_POLL_RETRIES_def)
  then show ?thesis
    by (simp add: generateImages_polling [OF assms(1)] p MAX_POLL_RETRIES_def)
qed

text \<open>A job that is finished in the reply to the 120th query.\<close>

theorem C9_last_poll_discarded_witness:
  "\<not> still_processing finished
   \<and> fst (generateImages sample_host
      (sample_env (\<lambda>n. Inr (Some ''h1''))
         (\<lambda>n. if n < 119 then Inr (Some queued) else Inr (Some finished)))
      ''jimeng-image-4.5'' ''a cat'' no_options empty_trace) =
       Inl (APIException API_IMAGE_GENERATION_FAILED (Some msg_timeout))
   \<and> polls (snd (generateImages sample_host
      (sample_env (\<lambda>n. Inr (Some ''h1''))
         (\<lambda>n. if n < 119 then Inr (Some queued) else Inr (Some finished)))
      ''jimeng-image-4.5'' ''a cat'' no_options empty_trace)) = 120"
proof -
  have q: "still_processing queued" "\<not> still_processing finished"
    by (simp_all add: still_processing_def queued_def finished_def PROCESSING_STATES_def
        empty_items_def)
  from C9_last_poll_discarded [OF sample_submission,
      of "\<lambda>n. if n < 119 then Inr (Some queued) else Inr (Some finished)" finished] q
  show ?thesis
    by (simp add: sample_env_def empty_trace_def processing_reply_def)
qed

text \<open>
  Claim C7.  When a reply to a history query, the first or a later one up to the
  120th, has no entry for the history id, the run fails at once with
  \<^verbatim>\<open>API_IMAGE_GENERATION_FAILED\<close> and the message of line 537, and that query is the
  last one issued.
\<close>

theorem C7_missing_record:
  assumes "fst (submission H E modelName prompt opts t) = Inr historyId"
    and "k < 120"
    and "\<forall>i<k. processing_reply (history_r E (polls t + i))"
    and "history_r E (polls t + k) = Inr None"
  shows "fst (generateImages H E modelName prompt opts t) =
      Inl (APIException API_IMAGE_GENERATION_FAILED (Some msg_no_record))
    \<and> polls (snd (generateImages H E modelName prompt opts t)) = polls t + (k + 1)"
proof -
  let ?t0 = "snd (submission H E modelName prompt opts t)"
  have p: "polls ?t0 = polls t"
    by (rule submission_polls)
  from assms(2-4) have "polling E ?t0 =
      (Inl (APIException API_IMAGE_GENERATION_FAILED (Some msg_no_record)),
       ?t0\<lparr>polls := polls ?t0 + (k + 1)\<rparr>)"
    by (intro polling_missing) (simp_all add: p MAX_POLL_RETRIES_def)
  then show ?thesis
    by (simp add: generateImages_polling [OF assms(1)] p)
qed

text \<open>The entry is missing from the first reply, and from the 120th.\<close>

theorem C7_missing_record_witness:
  "fst (generateImages sample_host
      (sample_env (\<lambda>n. Inr (Some ''h1'')) (\<lambda>n. if n < 1 then Inr None else Inr (Some finished)))
      ''jimeng-image-4.5'' ''a cat'' no_options empty_trace) =
       Inl (APIException API_IMAGE_GENERATION_FAILED (Some msg_no_record))
   \<and> polls (snd (generateImages sample_host
      (sample_env (\<lambda>n. Inr (Some ''h1'')) (\<lambda>n. if n < 1 then Inr None else Inr (Some finished)))
      ''jimeng-image-4.5'' ''a cat'' no_options empty_trace)) = 1
   \<and> fst (generateImages sample_host
      (sample_env (\<lambda>n. Inr (Some ''h1'')) (\<lambda>n. if n < 119 then Inr (Some queued) else Inr None))
      ''jimeng-image-4.5'' ''a cat'' no_options empty_trace) =
       Inl (APIException API_IMAGE_GENERATION_FAILED (Some msg_no_record))
   \<and> polls (snd (generateImages sample_host
      (sample_env (\<lambda>n. Inr (Some ''h1'')) (\<lambda>n. if n < 119 then Inr (Some queued) else Inr None))
      ''jimeng-image-4.5'' ''a cat'' no_options empty_trace)) = 120"
proof -
  have q: "still_processing queued"
    by (simp add: still_processing_def queued_def PROCESSING_STATES_def empty_items_def)
  from C7_missing_record [OF sample_submission,
      of 0 "\<lambda>n. if n < 1 then Inr None else Inr (Some finished)"]
    C7_missing_record [OF sample_submission,
      of 119 "\<lambda>n. if n < 119 then Inr (Some queued) else Inr None"] q
  show ?thesis
    by (simp add: sample_env_def empty_trace_def processing_reply_def)
qed

text \<open>
  Status 30 in the reply to a query before the 120th: the error is the content filter
  one exactly for the fail code \<^verbatim>\<open>"2038"\<close>.
\<close>

lemma fail_state_within_budget:
  assumes "fst (submission H E modelName prompt opts t) = Inr historyId"
    and "k + 1 < 120"
    and "\<forall>i<k. processing_reply (history_r E (polls t + i))"
    and "history_r E (polls t + k) = Inr (Some r)"
    and "h_status r = 30"
  shows "fst (generateImages H E modelName prompt opts t) =
      (if h_fail_code r = Str ''2038'' then Inl (APIException API_CONTENT_FILTERED None)
       else Inl (APIException API_IMAGE_GENERATION_FAILED None))"
proof -
  let ?t0 = "snd (submission H E modelName prompt opts t)"
  have p: "polls ?t0 = polls t"
    by (rule submission_polls)
  from assms(5) have "\<not> still_processing r"
    by (simp add: still_processing_def PROCESSING_STATES_def)
  with assms(2-4) have "polling E ?t0 =
      (conclude (h_status r) (h_fail_code r) (h_item_list r), ?t0\<lparr>polls := polls ?t0 + (k + 1)\<rparr>)"
    by (intro polling_terminal) (simp_all add: p MAX_POLL_RETRIES_def)
  with assms(5) show ?thesis
    by (simp add: generateImages_polling [OF assms(1)] conclude_def FAIL_STATE_def)
qed

text \<open>
  Claim C3, at the input where the code departs from it.  The job is queued for 119
  queries and the reply to the 120th has status 30 and fail code \<^verbatim>\<open>"2038"\<close>: the run
  ends with status 30 and the content policy code, and fails with the timeout error
  built from \<^verbatim>\<open>API_IMAGE_GENERATION_FAILED\<close>, not with \<^verbatim>\<open>API_CONTENT_FILTERED\<close>.
\<close>

theorem C3_filtered_on_last_poll:
  "h_status filtered = FAIL_STATE \<and> h_fail_code filtered = Str ''2038''
   \<and> fst (generateImages sample_host
      (sample_env (\<lambda>n. Inr (Some ''h1''))
         (\<lambda>n. if n < 119 then Inr (Some queued) else Inr (Some filtered)))
      ''jimeng-image-4.5'' ''a cat'' no_options empty_trace) =
       Inl (APIException API_IMAGE_GENERATION_FAILED (Some msg_timeout))"
proof -
  let ?E = "sample_env (\<lambda>n. Inr (Some ''h1''))
         (\<lambda>n. if n < 119 then Inr (Some queued) else Inr (Some filtered))"
  let ?t0 = "snd (submission sample_host ?E ''jimeng-image-4.5'' ''a cat'' no_options
    empty_trace)"
  have q: "still_processing queued"
    by (simp add: still_processing_def queued_def PROCESSING_STATES_def empty_items_def)
  have "polling ?E ?t0 =
      (Inl (APIException API_IMAGE_GENERATION_FAILED (Some msg_timeout)),
       ?t0\<lparr>polls := polls ?t0 + MAX_POLL_RETRIES\<rparr>)"
    by (rule polling_exhausted [where k = 119 and r = filtered])
       (simp_all add: submission_polls empty_trace_def q sample_env_def processing_reply_def
          MAX_POLL_RETRIES_def)
  then show ?thesis
    by (simp add: generateImages_polling [OF sample_submission] filtered_def FAIL_STATE_def)
qed



lemma submission_sends:
  assumes "fst (submission H E modelName prompt opts t) = Inr historyId"
  shows "\<exists>rd. submitted (snd (submission H E modelName prompt opts t)) = submitted t @ [rd]"
proof (cases rule: submission_cases [of H E modelName prompt opts t])
  case (failed e t')
  with assms show ?thesis by simp
next
  case (sent r t' g uploadID seed)
  then show ?thesis by simp
qed

text \<open>
  Claim C10.  A run submits at most one draft.  When a reference image is supplied
  and its upload returns a URI, the draft has the blend shape and the prompt of its
  core parameters is the caller's prompt followed by \<^verbatim>\<open>##\<close>; otherwise the draft has
  the generate shape and carries the caller's prompt as it is.
\<close>

theorem C10_prompt_suffix:
  "submitted (snd (generateImages H E modelName prompt opts t)) = submitted t
   \<or> (\<exists>rd. submitted (snd (generateImages H E modelName prompt opts t)) = submitted t @ [rd]
        \<and> (if default_to [] (opt_filePath opts) \<noteq> []
               \<and> (\<exists>uri. uploadFile_r E (uploads t) = Inr (Some uri) \<and> uri \<noteq> [])
            then (\<exists>cp al pl gt. rd_abilities rd = Blend cp al pl gt
                    \<and> cp_prompt cp = prompt @ ''##'')
            else (\<exists>cp. rd_abilities rd = Generate cp \<and> cp_prompt cp = prompt)))"
proof (cases rule: submission_cases [of H E modelName prompt opts t])
  case (failed e t')
  then show ?thesis
    by (simp add: generateImages_keeps(2))
next
  case (sent r t' g uploadID seed)
  let ?f = "default_to [] (opt_filePath opts)"
  let ?rd = "buildRequestData H modelName (getModel modelName) prompt opts g (?f \<noteq> [])
    uploadID seed"
  from sent(5) have blend: "(?f \<noteq> [] \<and> truthy uploadID) =
    (?f \<noteq> [] \<and> (\<exists>uri. uploadFile_r E (uploads t) = Inr (Some uri) \<and> uri \<noteq> []))"
    by (cases uploadID) (auto split: if_splits)
  have "if ?f \<noteq> [] \<and> truthy uploadID
    then (\<exists>cp al pl gt. rd_abilities ?rd = Blend cp al pl gt \<and> cp_prompt cp = prompt @ ''##'')
    else (\<exists>cp. rd_abilities ?rd = Generate cp \<and> cp_prompt cp = prompt)"
    by (simp add: buildRequestData_def buildAbilities_def)
  with sent(1,4) show ?thesis
    unfolding blend by (simp add: generateImages_keeps(2))
qed

lemma sample_submission_blend:
  "fst (submission sample_host (sample_env (\<lambda>n. Inr (Some ''h1'')) h) ''jimeng-image-4.5''
     ''a cat'' (no_options\<lparr>opt_filePath := Some ''ref.png''\<rparr>) empty_trace) = Inr ''h1''"
  by (rule submission_succeeds [where c = 10])
     (simp_all add: sample_env_def no_options_def empty_trace_def)

text \<open>The prompt \<^verbatim>\<open>a cat\<close> with the reference \<^verbatim>\<open>ref.png\<close>, and without a reference.\<close>

theorem C10_prompt_suffix_witness:
  "(\<exists>rd cp al pl gt.
      submitted (snd (generateImages sample_host
        (sample_env (\<lambda>n. Inr (Some ''h1'')) (\<lambda>n. Inr (Some finished)))
        ''jimeng-image-4.5'' ''a cat'' (no_options\<lparr>opt_filePath := Some ''ref.png''\<rparr>)
        empty_trace)) = [rd]
      \<and> rd_abilities rd = Blend cp al pl gt \<and> cp_prompt cp = ''a cat##'')
   \<and> (\<exists>rd cp.
      submitted (snd (generateImages sample_host
        (sample_env (\<lambda>n. Inr (Some ''h1'')) (\<lambda>n. Inr (Some finished)))
        ''jimeng-image-4.5'' ''a cat'' no_options empty_trace)) = [rd]
      \<and> rd_abilities rd = Generate cp \<and> cp_prompt cp = ''a cat'')"
proof -
  let ?E = "sample_env (\<lambda>n. Inr (Some ''h1'')) (\<lambda>n. Inr (Some finished))"
  from submission_sends [OF sample_submission_blend, of "\<lambda>n. Inr (Some finished)"]
  have 1: "submitted (snd (generateImages sample_host ?E
        ''jimeng-image-4.5'' ''a cat'' (no_options\<lparr>opt_filePath := Some ''ref.png''\<rparr>)
        empty_trace)) \<noteq> []"
    by (auto simp: generateImages_keeps(2))
  from submission_sends [OF sample_submission, of "\<lambda>n. Inr (Some finished)"]
  have 2: "submitted (snd (generateImages sample_host ?E
        ''jimeng-image-4.5'' ''a cat'' no_options empty_trace)) \<noteq> []"
    by (auto simp: generateImages_keeps(2))
  have 3: "default_to [] (opt_filePath (no_options\<lparr>opt_filePath := Some ''ref.png''\<rparr>)) \<noteq> []"
    "default_to [] (opt_filePath no_options) = []"
    "uploadFile_r ?E (uploads empty_trace) = Inr (Some ''tos-cn-i/ref'')"
    "submitted empty_trace = []"
    by (simp_all add: no_options_def sample_env_def empty_trace_def)
  from C10_prompt_suffix [of sample_host ?E "''jimeng-image-4.5''" "''a cat''"
      "no_options\<lparr>opt_filePath := Some ''ref.png''\<rparr>" empty_trace] 1
  have "\<exists>rd cp al pl gt.
      submitted (snd (generateImages sample_host ?E
        ''jimeng-image-4.5'' ''a cat'' (no_options\<lparr>opt_filePath := Some ''ref.png''\<rparr>)
        empty_trace)) = [rd]
      \<and> rd_abilities rd = Blend cp al pl gt \<and> cp_prompt cp = ''a cat##''"
    unfolding 3 by auto
  moreover
  from C10_prompt_suffix [of sample_host ?E "''jimeng-image-4.5''" "''a cat''"
      no_options empty_trace] 2
  have "\<exists>rd cp.
      submitted (snd (generateImages sample_host ?E
        ''jimeng-image-4.5'' ''a cat'' no_options empty_trace)) = [rd]
      \<and> rd_abilities rd = Generate cp \<and> cp_prompt cp = ''a cat''"
    unfolding 3 by auto
  ultimately show ?thesis
    by blast
qed


section \<open>Properties of generateImagesWithRetry\<close>

lemma start_index:
  "nat (max 0 (indexOf resolutionLevels
     (if truthy resolution then template resolution else ''2k''))) =
   (if resolution = Some ''1k'' then 1 else 0)"
  by (cases resolution) (auto simp: resolutionLevels_def)

lemma retryLoop_attempt:
  assumes "currentResIndex < length resolutionLevels"
  shows "retryLoop H E modelName prompt opts currentResIndex t =
    (case generateImages H E modelName prompt
            (opts\<lparr>opt_resolution := Some (resolutionLevels ! currentResIndex)\<rparr>)
            (t\<lparr>attempts := attempts t @ [resolutionLevels ! currentResIndex]\<rparr>) of
       (Inr urls, t') \<Rightarrow> (Inr urls, t')
     | (Inl error, t') \<Rightarrow>
         if isInsufficientCredits H error \<and> currentResIndex < length resolutionLevels - 1
         then retryLoop H E modelName prompt opts (currentResIndex + 1) t'
         else if isInsufficientCredits H error
         then (Inl (APIException API_IMAGE_GENERATION_INSUFFICIENT_POINTS
                      (Some msg_remediation)), t')
         else (Inl error, t'))"
  using assms by (subst retryLoop.simps) simp

text \<open>The last level: one attempt, no further one.\<close>

lemma retryLoop_last:
  "retryLoop H E modelName prompt opts 1 t =
    (let a = generateImages H E modelName prompt (opts\<lparr>opt_resolution := Some ''1k''\<rparr>)
               (t\<lparr>attempts := attempts t @ [''1k'']\<rparr>)
     in case fst a of
          Inr urls \<Rightarrow> a
        | Inl error \<Rightarrow>
            if isInsufficientCredits H error
            then (Inl (APIException API_IMAGE_GENERATION_INSUFFICIENT_POINTS
                         (Some msg_remediation)), snd a)
            else a)"
  by (subst retryLoop_attempt)
     (auto simp: resolutionLevels_def Let_def split: prod.splits sum.splits)

text \<open>The first level: one attempt, and the last level after an insufficient-credits error.\<close>

lemma retryLoop_first:
  "retryLoop H E modelName prompt opts 0 t =
    (let a = generateImages H E modelName prompt (opts\<lparr>opt_resolution := Some ''2k''\<rparr>)
               (t\<lparr>attempts := attempts t @ [''2k'']\<rparr>)
     in case fst a of
          Inr urls \<Rightarrow> a
        | Inl error \<Rightarrow>
            if isInsufficientCredits H error
            then retryLoop H E modelName prompt opts 1 (snd a)
            else a)"
  by (subst retryLoop_attempt)
     (auto simp: resolutionLevels_def Let_def split: prod.splits sum.splits)

lemma generateImagesWithRetry_start:
  "generateImagesWithRetry H E modelName prompt opts t =
    retryLoop H E modelName prompt opts (if opt_resolution opts = Some ''1k'' then 1 else 0) t"
  by (simp only: generateImagesWithRetry_def start_index)

text \<open>
  Claim C1.  \<open>first\<close> is the inner pipeline at \<^verbatim>\<open>"2k"\<close>, \<open>second\<close> the inner pipeline
  at \<^verbatim>\<open>"1k"\<close> run on what \<open>first\<close> has left, \<open>only\<close> the inner pipeline at \<^verbatim>\<open>"1k"\<close>
  from the start.  When the options do not ask for \<^verbatim>\<open>"1k"\<close> and \<open>first\<close> fails with an
  error of the insufficient-credits signature, the wrapper runs \<open>second\<close>, its
  attempts are \<^verbatim>\<open>"2k"\<close> and then \<^verbatim>\<open>"1k"\<close> and no other, it returns the URLs of
  \<open>second\<close> when that succeeds, and it fails with
  \<^verbatim>\<open>API_IMAGE_GENERATION_INSUFFICIENT_POINTS\<close> and the remediation message when \<open>second\<close>
  fails with the signature too.  When the options ask for \<^verbatim>\<open>"1k"\<close> and \<open>only\<close> fails
  with the signature, the wrapper fails in that way after this one attempt.
\<close>

theorem C1_downgrade_on_insufficient_credits:
  "let first = generateImages H E modelName prompt (opts\<lparr>opt_resolution := Some ''2k''\<rparr>)
                 (t\<lparr>attempts := attempts t @ [''2k'']\<rparr>);
       second = generateImages H E modelName prompt (opts\<lparr>opt_resolution := Some ''1k''\<rparr>)
                  ((snd first)\<lparr>attempts := attempts (snd first) @ [''1k'']\<rparr>);
       only = generateImages H E modelName prompt (opts\<lparr>opt_resolution := Some ''1k''\<rparr>)
                (t\<lparr>attempts := attempts t @ [''1k'']\<rparr>);
       whole = generateImagesWithRetry H E modelName prompt opts t;
       InsufficientCredits =
         APIException API_IMAGE_GENERATION_INSUFFICIENT_POINTS (Some msg_remediation)
   in (opt_resolution opts \<noteq> Some ''1k''
         \<and> (\<exists>e. fst first = Inl e \<and> isInsufficientCredits H e)
       \<longrightarrow> attempts (snd whole) = attempts t @ [''2k'', ''1k'']
         \<and> (\<forall>urls. fst second = Inr urls \<longrightarrow> whole = (Inr urls, snd second))
         \<and> (\<forall>e. fst second = Inl e \<and> isInsufficientCredits H e
              \<longrightarrow> whole = (Inl InsufficientCredits, snd second)))
    \<and> (opt_resolution opts = Some ''1k''
         \<and> (\<exists>e. fst only = Inl e \<and> isInsufficientCredits H e)
       \<longrightarrow> attempts (snd whole) = attempts t @ [''1k'']
         \<and> whole = (Inl InsufficientCredits, snd only))"
proof -
  let ?first = "generateImages H E modelName prompt (opts\<lparr>opt_resolution := Some ''2k''\<rparr>)
                 (t\<lparr>attempts := attempts t @ [''2k'']\<rparr>)"
  let ?second = "generateImages H E modelName prompt (opts\<lparr>opt_resolution := Some ''1k''\<rparr>)
                  ((snd ?first)\<lparr>attempts := attempts (snd ?first) @ [''1k'']\<rparr>)"
  let ?only = "generateImages H E modelName prompt (opts\<lparr>opt_resolution := Some ''1k''\<rparr>)
                (t\<lparr>attempts := attempts t @ [''1k'']\<rparr>)"
  let ?whole = "generateImagesWithRetry H E modelName prompt opts t"
  let ?IC = "APIException API_IMAGE_GENERATION_INSUFFICIENT_POINTS (Some msg_remediation)"
  have a1: "attempts (snd ?first) = attempts t @ [''2k'']"
    and a2: "attempts (snd ?second) = attempts t @ [''2k'', ''1k'']"
    and a3: "attempts (snd ?only) = attempts t @ [''1k'']"
    by (simp_all add: generateImages_keeps(1))
  have two: "attempts (snd ?whole) = attempts t @ [''2k'', ''1k'']
         \<and> (\<forall>urls. fst ?second = Inr urls \<longrightarrow> ?whole = (Inr urls, snd ?second))
         \<and> (\<forall>e. fst ?second = Inl e \<and> isInsufficientCredits H e
              \<longrightarrow> ?whole = (Inl ?IC, snd ?second))"
    if start: "opt_resolution opts \<noteq> Some ''1k''"
      and e: "fst ?first = Inl e" "isInsufficientCredits H e" for e
  proof -
    from start e have w: "?whole = retryLoop H E modelName prompt opts 1 (snd ?first)"
      by (simp add: generateImagesWithRetry_start retryLoop_first [of H E modelName prompt opts t])
    show ?thesis
      unfolding w retryLoop_last [of H E modelName prompt opts "snd ?first"]
      using a2 by (cases ?second) (auto simp: Let_def split: sum.splits)
  qed
  have one: "attempts (snd ?whole) = attempts t @ [''1k''] \<and> ?whole = (Inl ?IC, snd ?only)"
    if start: "opt_resolution opts = Some ''1k''"
      and e: "fst ?only = Inl e" "isInsufficientCredits H e" for e
  proof -
    from start have w: "?whole = retryLoop H E modelName prompt opts 1 t"
      by (simp add: generateImagesWithRetry_start)
    show ?thesis
      unfolding w retryLoop_last [of H E modelName prompt opts t]
      using a3 e by (simp add: Let_def)
  qed
  from two one show ?thesis
    unfolding Let_def by blast
qed



lemma submission_rejected:
  assumes "default_to [] (opt_filePath opts) = []"
    and "getCredit_r E (credit_reads t) = Inr c" and "0 < c"
    and "generate_r E (length (submitted t)) = Inl e"
  shows "fst (submission H E modelName prompt opts t) = Inl e"
    and "length (submitted (snd (submission H E modelName prompt opts t))) =
      length (submitted t) + 1"
proof -
  from resolveGeometry_total [of modelName opts prompt]
  obtain g where "resolveGeometry modelName prompt opts = Inr g"
    by blast
  with assms show "fst (submission H E modelName prompt opts t) = Inl e"
    and "length (submitted (snd (submission H E modelName prompt opts t))) =
      length (submitted t) + 1"
    by (auto simp: submission_def uploadReference_def ensureCredit_def submitDraft_def Let_def)
qed

lemma generateImages_terminal:
  assumes "fst (submission H E modelName prompt opts t) = Inr historyId"
    and "k + 1 < 120"
    and "\<forall>i<k. processing_reply (history_r E (polls t + i))"
    and "history_r E (polls t + k) = Inr (Some r)"
    and "\<not> still_processing r"
  shows "fst (generateImages H E modelName prompt opts t) =
    conclude (h_status r) (h_fail_code r) (h_item_list r)"
proof -
  let ?t0 = "snd (submission H E modelName prompt opts t)"
  have p: "polls ?t0 = polls t"
    by (rule submission_polls)
  from assms(2-5) have "polling E ?t0 =
      (conclude (h_status r) (h_fail_code r) (h_item_list r), ?t0\<lparr>polls := polls ?t0 + (k + 1)\<rparr>)"
    by (intro polling_terminal) (simp_all add: p MAX_POLL_RETRIES_def)
  then show ?thesis
    by (simp add: generateImages_polling [OF assms(1)])
qed



lemma sample_env_sel:
  "uploadFile_r (sample_env g h) = (\<lambda>n. Inr (Some ''tos-cn-i/ref''))"
  "getCredit_r (sample_env g h) = (\<lambda>n. Inr 10)"
  "generate_r (sample_env g h) = g"
  "history_r (sample_env g h) = h"
  by (simp_all add: sample_env_def)

lemma sample_credit_error:
  "isInsufficientCredits sample_host (Error Undefined (Some ''fail_code: 2039''))"
  by (simp add: isInsufficientCredits_def sample_host_def)

text \<open>
  The generate request is rejected with a message that contains \<^verbatim>\<open>2039\<close>: once, and
  the second attempt returns \<^verbatim>\<open>https://x/img1.png\<close>; and every time.
\<close>

theorem C1_downgrade_on_insufficient_credits_witness:
  "fst (generateImagesWithRetry sample_host
      (sample_env (\<lambda>n. if n = 0 then Inl (Error Undefined (Some ''fail_code: 2039''))
                        else Inr (Some ''h1''))
         (\<lambda>n. Inr (Some finished)))
      ''jimeng-image-4.5'' ''a cat'' no_options empty_trace) = Inr [Some ''https://x/img1.png'']
   \<and> attempts (snd (generateImagesWithRetry sample_host
      (sample_env (\<lambda>n. if n = 0 then Inl (Error Undefined (Some ''fail_code: 2039''))
                        else Inr (Some ''h1''))
         (\<lambda>n. Inr (Some finished)))
      ''jimeng-image-4.5'' ''a cat'' no_options empty_trace)) = [''2k'', ''1k'']
   \<and> fst (generateImagesWithRetry sample_host
      (sample_env (\<lambda>n. Inl (Error Undefined (Some ''fail_code: 2039'')))
         (\<lambda>n. Inr (Some finished)))
      ''jimeng-image-4.5'' ''a cat'' no_options empty_trace) =
       Inl (APIException API_IMAGE_GENERATION_INSUFFICIENT_POINTS (Some msg_remediation))
   \<and> attempts (snd (generateImagesWithRetry sample_host
      (sample_env (\<lambda>n. Inl (Error Undefined (Some ''fail_code: 2039'')))
         (\<lambda>n. Inr (Some finished)))
      ''jimeng-image-4.5'' ''a cat'' no_options empty_trace)) = [''2k'', ''1k'']"
proof -
  let ?err = "Error Undefined (Some ''fail_code: 2039'')"
  let ?A = "sample_env (\<lambda>n. Inl ?err) (\<lambda>n. Inr (Some finished))"
  let ?B = "sample_env (\<lambda>n. if n = 0 then Inl ?err else Inr (Some ''h1''))
    (\<lambda>n. Inr (Some finished))"
  let ?o2 = "no_options\<lparr>opt_resolution := Some ''2k''\<rparr>"
  let ?o1 = "no_options\<lparr>opt_resolution := Some ''1k''\<rparr>"
  let ?t = "empty_trace\<lparr>attempts := attempts empty_trace @ [''2k'']\<rparr>"
  let ?m = "''jimeng-image-4.5''"
  let ?p = "''a cat''"
  have start: "opt_resolution no_options \<noteq> Some ''1k''" "attempts empty_trace = []"
    by (simp_all add: no_options_def empty_trace_def)
  \<comment> \<open>both levels are rejected\<close>
  let ?firstA = "generateImages sample_host ?A ?m ?p ?o2 ?t"
  let ?tA = "(snd ?firstA)\<lparr>attempts := attempts (snd ?firstA) @ [''1k'']\<rparr>"
  have "fst (submission sample_host ?A ?m ?p ?o2 ?t) = Inl ?err"
    by (rule submission_rejected(1) [where c = 10])
       (simp_all add: sample_env_def no_options_def)
  then have firstA: "fst ?firstA = Inl ?err"
    by (simp add: generateImages_failed)
  have "fst (submission sample_host ?A ?m ?p ?o1 ?tA) = Inl ?err"
    by (rule submission_rejected(1) [where c = 10])
       (simp_all add: sample_env_def no_options_def)
  then have secondA: "fst (generateImages sample_host ?A ?m ?p ?o1 ?tA) = Inl ?err"
    by (simp add: generateImages_failed)
  from C1_downgrade_on_insufficient_credits
    [unfolded Let_def, of no_options sample_host ?A ?m ?p empty_trace, THEN conjunct1]
    start firstA secondA sample_credit_error
  have A: "fst (generateImagesWithRetry sample_host ?A ?m ?p no_options empty_trace) =
       Inl (APIException API_IMAGE_GENERATION_INSUFFICIENT_POINTS (Some msg_remediation))
    \<and> attempts (snd (generateImagesWithRetry sample_host ?A ?m ?p no_options empty_trace)) =
       [''2k'', ''1k'']"
    by (simp add: generateImages_keeps(1))
  \<comment> \<open>the first level is rejected, the second succeeds\<close>
  let ?firstB = "generateImages sample_host ?B ?m ?p ?o2 ?t"
  let ?tB = "(snd ?firstB)\<lparr>attempts := attempts (snd ?firstB) @ [''1k'']\<rparr>"
  have rej: "fst (submission sample_host ?B ?m ?p ?o2 ?t) = Inl ?err"
    "length (submitted (snd (submission sample_host ?B ?m ?p ?o2 ?t))) = length (submitted ?t) + 1"
    by (rule submission_rejected [where c = 10];
        simp add: sample_env_def no_options_def empty_trace_def)+
  then have firstB: "fst ?firstB = Inl ?err"
    by (simp add: generateImages_failed)
  from rej(2) have len: "submitted (snd ?firstB) \<noteq> []"
    by (auto simp: generateImages_keeps(2) empty_trace_def)
  have nofile: "default_to [] (opt_filePath ?o1) = []"
    by (simp add: no_options_def)
  have subB: "fst (submission sample_host ?B ?m ?p ?o1 ?tB) = Inr ''h1''"
    by (rule submission_succeeds [where c = 10])
       (simp_all add: len sample_env_sel nofile)
  have "fst (generateImages sample_host ?B ?m ?p ?o1 ?tB) =
      conclude (h_status finished) (h_fail_code finished) (h_item_list finished)"
    by (rule generateImages_terminal [OF subB, where k = 0])
       (simp_all add: sample_env_def still_processing_def finished_def PROCESSING_STATES_def)
  then have secondB: "fst (generateImages sample_host ?B ?m ?p ?o1 ?tB) =
      Inr [Some ''https://x/img1.png'']"
    by (simp add: conclude_def finished_def FAIL_STATE_def item_url_def)
  from C1_downgrade_on_insufficient_credits
    [unfolded Let_def, of no_options sample_host ?B ?m ?p empty_trace, THEN conjunct1]
    start firstB secondB sample_credit_error
  have B: "fst (generateImagesWithRetry sample_host ?B ?m ?p no_options empty_trace) =
       Inr [Some ''https://x/img1.png'']
    \<and> attempts (snd (generateImagesWithRetry sample_host ?B ?m ?p no_options empty_trace)) =
       [''2k'', ''1k'']"
    by (simp add: generateImages_keeps(1))
  from A B show ?thesis
    by simp
qed


section \<open>The model value, and errors with and without a marker\<close>

lemma getModel_samples:
  "getModel ''jimeng-image-3.0'' = Mapped ''high_aes_general_v30l:general_v3.0_18b''"
  "getModel ''no-such-model'' = Mapped ''high_aes_general_v40l''"
  "getModel ''toString'' = Inherited ''toString''"
  by (simp_all add: getModel_def MODEL_MAP_def DEFAULT_MODEL_def prototype_members_def)














end
